theory Spec2Isabelle
  imports Complex_Main
begin

section \<open>Values of the runtime\<close>

text \<open>
  A JavaScript number is either a finite value or one of the three non-finite ones.
  The server never computes with the numbers it stores (it only tests and copies them),
  so a finite value is kept as the real number it denotes.
\<close>

datatype jsnum = Fin real | NaN | PosInf | NegInf

fun Number_isFinite :: "jsnum \<Rightarrow> bool" where
  "Number_isFinite (Fin x) = True"
| "Number_isFinite NaN = False"
| "Number_isFinite PosInf = False"
| "Number_isFinite NegInf = False"

text \<open>
  What \<^verbatim>\<open>JSON.parse\<close> returns. An object is the list of its members in the order
  of the text; a later member with the same key overrides an earlier one.
\<close>

datatype json =
    JNull
  | JBool bool
  | JNum jsnum
  | JStr string
  | JArr "json list"
  | JObj "(string \<times> json) list"

text \<open>Property access \<^verbatim>\<open>payload.k\<close>: \<open>None\<close> is \<^verbatim>\<open>undefined\<close>.\<close>

fun get_prop :: "json \<Rightarrow> string \<Rightarrow> json option" where
  "get_prop (JObj kvs) k = map_of (rev kvs) k"
| "get_prop v k = None"

text \<open>The operator \<^verbatim>\<open>??\<close> on a property: \<^verbatim>\<open>undefined\<close> and \<^verbatim>\<open>null\<close> give the default.\<close>

fun nullish :: "json option \<Rightarrow> json \<Rightarrow> json" where
  "nullish None d = d"
| "nullish (Some JNull) d = d"
| "nullish (Some v) d = v"

text \<open>
  \<^verbatim>\<open>Number(v)\<close> either returns a number or throws. On a number, a boolean and
  \<^verbatim>\<open>null\<close> the result is fixed by the language. On a string, an array or an object it
  is the conversion of the runtime, which is not code of this repository and is the
  parameter \<open>cv\<close>: a string is read as a numeric literal (the empty string as 0, a text
  that is no literal as \<^verbatim>\<open>NaN\<close>), an array or an object is first converted to a
  primitive, and that conversion throws \<^verbatim>\<open>TypeError\<close> when the value has neither a
  callable \<^verbatim>\<open>valueOf\<close> nor a callable \<^verbatim>\<open>toString\<close> that returns a primitive,
  as for \<^verbatim>\<open>{"toString": 1}\<close>.
\<close>

datatype js_error = TypeError

fun Number :: "(json \<Rightarrow> js_error + jsnum) \<Rightarrow> json \<Rightarrow> js_error + jsnum" where
  "Number cv (JNum n) = Inr n"
| "Number cv (JBool b) = Inr (Fin (if b then 1 else 0))"
| "Number cv JNull = Inr (Fin 0)"
| "Number cv v = cv v"

text \<open>\<^verbatim>\<open>!payload || typeof payload !== "object"\<close> is false exactly on objects and arrays.\<close>

fun is_object :: "json \<Rightarrow> bool" where
  "is_object (JObj kvs) = True"
| "is_object (JArr vs) = True"
| "is_object v = False"

section \<open>Room State Store\<close>

text \<open>
  A row of table \<^verbatim>\<open>room_state\<close>. The primary key \<^verbatim>\<open>room_id\<close> is the key under
  which the table (a map) holds the row. The column \<open>updated_at\<close> holds the text
  \<^verbatim>\<open>new Date().toISOString()\<close>; that text is a fixed-width rendering of the
  millisecond clock, so the row keeps the clock reading it renders.
\<close>

record room_row =
  video_path :: "string option"
  position :: jsnum
  paused :: int
  playback_rate :: jsnum
  updated_at :: int

text \<open>The message \<^verbatim>\<open>{ type: "state", data: {...} }\<close> pushed to a channel.\<close>

record state_data =
  roomId :: string
  videoPath :: "string option"
  position' :: jsnum
  paused' :: bool
  playbackRate :: jsnum
  updatedAt :: int
  serverTime :: int

text \<open>A channel: its identity and the \<^verbatim>\<open>ws.data\<close> fixed at the upgrade.\<close>

datatype ws = WS (ws_id: nat) (ws_roomId: string) (ws_userId: nat)

record user_row =
  user_id :: nat
  email :: string
  is_admin :: int
  user_created_at :: int

record session_row =
  s_user_id :: nat
  s_token :: string
  s_expires_at :: int
  s_created_at :: int

record invite_row =
  invite_id :: nat
  i_token :: string
  i_email :: "string option"
  uses_remaining :: int
  i_expires_at :: "int option"
  created_by :: "string option"
  i_created_at :: int

text \<open>
  The state of the server process: the four tables of the database, the counters behind
  the two \<^verbatim>\<open>AUTOINCREMENT\<close> keys the code reads, the registry \<^verbatim>\<open>socketsByRoom\<close>,
  the log of every \<^verbatim>\<open>socket.send\<close>, and the number of clock readings taken so far.
  The clock itself is a parameter \<open>clk\<close> of every operation that reads it: \<open>clk k\<close> is
  the \<open>k\<close>-th reading of \<^verbatim>\<open>Date.now()\<close> in milliseconds.
\<close>

record server =
  room_state :: "string \<Rightarrow> room_row option"
  users :: "user_row list"
  sessions :: "session_row list"
  invites :: "invite_row list"
  next_user_id :: nat
  next_invite_id :: nat
  socketsByRoom :: "string \<Rightarrow> ws list option"
  sent :: "(ws \<times> state_data) list"
  ticks :: nat

definition Date_now :: "(nat \<Rightarrow> int) \<Rightarrow> server \<Rightarrow> int \<times> server" where
  "Date_now clk s = (clk (ticks s), s\<lparr>ticks := Suc (ticks s)\<rparr>)"

definition nowIso :: "(nat \<Rightarrow> int) \<Rightarrow> server \<Rightarrow> int \<times> server" where
  "nowIso clk s = Date_now clk s"

definition getRoomState :: "(nat \<Rightarrow> int) \<Rightarrow> server \<Rightarrow> string \<Rightarrow> room_row \<times> server" where
  "getRoomState clk s rid =
     (case room_state s rid of
        None \<Rightarrow>
          (let (t, s1) = nowIso clk s;
               state = \<lparr>video_path = None, position = Fin 0, paused = 1,
                        playback_rate = Fin 1, updated_at = t\<rparr>
           in (state, s1\<lparr>room_state := (room_state s1)(rid \<mapsto> state)\<rparr>))
      | Some row \<Rightarrow> (row, s))"

text \<open>
  The partial passed to \<^verbatim>\<open>updateRoomState\<close>. \<open>None\<close> is a field that is absent or
  \<^verbatim>\<open>undefined\<close>; \<open>u_video_path = Some None\<close> is a \<^verbatim>\<open>video_path\<close> that is given
  and \<^verbatim>\<open>null\<close>.
\<close>

record updates =
  u_video_path :: "string option option"
  u_position :: "jsnum option"
  u_paused :: "int option"
  u_playback_rate :: "jsnum option"

text \<open>The operator \<^verbatim>\<open>??\<close> on a field that cannot be \<^verbatim>\<open>null\<close>.\<close>

fun coalesce :: "'a option \<Rightarrow> 'a \<Rightarrow> 'a" where
  "coalesce None d = d"
| "coalesce (Some v) d = v"

text \<open>The operator \<^verbatim>\<open>??\<close> on \<^verbatim>\<open>video_path\<close>, which can be \<^verbatim>\<open>null\<close>.\<close>

fun coalesce_null :: "'a option option \<Rightarrow> 'a option \<Rightarrow> 'a option" where
  "coalesce_null None d = d"
| "coalesce_null (Some None) d = d"
| "coalesce_null (Some (Some v)) d = Some v"

definition updateRoomState ::
  "(nat \<Rightarrow> int) \<Rightarrow> server \<Rightarrow> string \<Rightarrow> updates \<Rightarrow> room_row \<times> server" where
  "updateRoomState clk s rid u =
     (let (current, s1) = getRoomState clk s rid;
          (t, s2) = nowIso clk s1;
          next = \<lparr>video_path = coalesce_null (u_video_path u) (video_path current),
                  position = coalesce (u_position u) (position current),
                  paused = coalesce (u_paused u) (paused current),
                  playback_rate = coalesce (u_playback_rate u) (playback_rate current),
                  updated_at = t\<rparr>
      in (next, s2\<lparr>room_state := (room_state s2)(rid \<mapsto> next)\<rparr>))"

section \<open>Sync Hub\<close>

definition broadcastRoom :: "server \<Rightarrow> string \<Rightarrow> state_data \<Rightarrow> server" where
  "broadcastRoom s rid message =
     (case socketsByRoom s rid of
        None \<Rightarrow> s
      | Some sockets \<Rightarrow> s\<lparr>sent := sent s @ map (\<lambda>socket. (socket, message)) sockets\<rparr>)"

definition ensureRoomSockets :: "server \<Rightarrow> string \<Rightarrow> ws list \<times> server" where
  "ensureRoomSockets s rid =
     (case socketsByRoom s rid of
        None \<Rightarrow> ([], s\<lparr>socketsByRoom := (socketsByRoom s)(rid \<mapsto> [])\<rparr>)
      | Some sockets \<Rightarrow> (sockets, s))"

text \<open>The state message built from a row and a reading of the clock.\<close>

definition state_message :: "string \<Rightarrow> room_row \<Rightarrow> int \<Rightarrow> state_data" where
  "state_message rid row t =
     \<lparr>roomId = rid, videoPath = video_path row, position' = position row,
      paused' = (paused row = 1), playbackRate = playback_rate row,
      updatedAt = updated_at row, serverTime = t\<rparr>"

text \<open>\<^verbatim>\<open>websocket.open\<close>: a set keeps one copy of a channel, in insertion order.\<close>

definition ws_open :: "(nat \<Rightarrow> int) \<Rightarrow> server \<Rightarrow> ws \<Rightarrow> server" where
  "ws_open clk s w =
     (let rid = ws_roomId w;
          (sockets, s1) = ensureRoomSockets s rid;
          s2 = s1\<lparr>socketsByRoom := (socketsByRoom s1)
                  (rid \<mapsto> (if w \<in> set sockets then sockets else sockets @ [w]))\<rparr>;
          (state, s3) = getRoomState clk s2 rid;
          (t, s4) = Date_now clk s3
      in s4\<lparr>sent := sent s4 @ [(w, state_message rid state t)]\<rparr>)"

definition ws_close :: "server \<Rightarrow> ws \<Rightarrow> server" where
  "ws_close s w =
     (case socketsByRoom s (ws_roomId w) of
        None \<Rightarrow> s
      | Some sockets \<Rightarrow>
          s\<lparr>socketsByRoom := (socketsByRoom s)(ws_roomId w \<mapsto> removeAll w sockets)\<rparr>)"

definition action_kinds :: "string list" where
  "action_kinds = [''play'', ''pause'', ''seek'', ''rate'', ''sync'']"

text \<open>
  \<^verbatim>\<open>websocket.message\<close>. The argument \<open>parsed\<close> is the result of \<^verbatim>\<open>JSON.parse\<close> on
  the text of the message, \<open>None\<close> when it throws. The handler converts the two numeric
  fields as soon as it has seen \<^verbatim>\<open>type: "action"\<close>, before it looks at the kind, and
  nothing catches what \<^verbatim>\<open>Number\<close> throws there: the handler then ends with the error,
  having changed nothing. The result is the error the handler ended with, if any, and the
  state it leaves.
\<close>

definition ws_message_result ::
  "(json \<Rightarrow> js_error + jsnum) \<Rightarrow> (nat \<Rightarrow> int) \<Rightarrow> server \<Rightarrow> ws \<Rightarrow> json option
     \<Rightarrow> js_error option \<times> server" where
  "ws_message_result cv clk s w parsed =
     (case parsed of
        None \<Rightarrow> (None, s)
      | Some payload \<Rightarrow>
          let rid = ws_roomId w in
          if \<not> is_object payload then (None, s)
          else if get_prop payload ''type'' = Some (JStr ''action'') then
            let action = get_prop payload ''action'' in
            case Number cv (nullish (get_prop payload ''position'') (JNum (Fin 0))) of
              Inl e \<Rightarrow> (Some e, s)
            | Inr pos \<Rightarrow>
            case Number cv (nullish (get_prop payload ''playbackRate'') (JNum (Fin 1))) of
              Inl e \<Rightarrow> (Some e, s)
            | Inr rate \<Rightarrow>
               if action \<in> set (map (\<lambda>k. Some (JStr k)) action_kinds) then
                 let pausedv = (if action = Some (JStr ''pause'') then Some 1
                                else if action = Some (JStr ''play'') then Some 0
                                else None);
                     (next, s1) = updateRoomState clk s rid
                        \<lparr>u_video_path = None,
                         u_position = (if Number_isFinite pos then Some pos else None),
                         u_paused = pausedv,
                         u_playback_rate = (if Number_isFinite rate then Some rate else None)\<rparr>;
                     (t, s2) = Date_now clk s1
                 in (None, broadcastRoom s2 rid (state_message rid next t))
               else (None, s)
          else (None, s))"

text \<open>The state of the server after the handler has run, however it ended.\<close>

definition ws_message ::
  "(json \<Rightarrow> js_error + jsnum) \<Rightarrow> (nat \<Rightarrow> int) \<Rightarrow> server \<Rightarrow> ws \<Rightarrow> json option \<Rightarrow> server" where
  "ws_message cv clk s w parsed = snd (ws_message_result cv clk s w parsed)"

section \<open>Users, sessions and the administrative operations\<close>

text \<open>What \<^verbatim>\<open>getSession\<close> returns for a live session.\<close>

record session =
  userId :: nat
  sess_email :: string
  isAdmin :: bool

text \<open>
  The responses of the handlers modelled here: \<^verbatim>\<open>{ ok: true }\<close>, the same with a
  \<^verbatim>\<open>Set-Cookie\<close> header carrying the session token, the room's state, the token of
  a new invite, an error with its status and text, and the status 500 the runtime answers
  when a handler throws (a \<^verbatim>\<open>UNIQUE\<close> constraint that fails).
\<close>

datatype response =
    JsonOk
  | JsonOkCookie string
  | JsonState state_data
  | JsonInvite string
  | JsonError nat string
  | Thrown

text \<open>The default of \<^verbatim>\<open>SESSION_TTL_HOURS\<close>, which the environment can replace.\<close>

definition SESSION_TTL_HOURS :: int where
  "SESSION_TTL_HOURS = 24 * 7"

text \<open>
  \<^verbatim>\<open>getSession\<close>. The argument is the value of the cookie \<^verbatim>\<open>sp_session\<close> as
  \<^verbatim>\<open>parseCookies\<close> returns it, \<open>None\<close> when the request has no such cookie.
\<close>

definition getSession ::
  "(nat \<Rightarrow> int) \<Rightarrow> server \<Rightarrow> string option \<Rightarrow> session option \<times> server" where
  "getSession clk s cookie =
     (case cookie of
        None \<Rightarrow> (None, s)
      | Some token \<Rightarrow>
          if token = [] then (None, s)
          else
            (case concat (map (\<lambda>se. map (\<lambda>u. (se, u))
                     (filter (\<lambda>u. user_id u = s_user_id se) (users s)))
                     (filter (\<lambda>se. s_token se = token) (sessions s))) of
               [] \<Rightarrow> (None, s)
             | (se, u) # rest \<Rightarrow>
                 let (now, s1) = Date_now clk s in
                 if s_expires_at se < now
                 then (None, s1\<lparr>sessions := filter (\<lambda>x. s_token x \<noteq> token) (sessions s1)\<rparr>)
                 else (Some \<lparr>userId = user_id u, sess_email = email u,
                             isAdmin = (is_admin u = 1)\<rparr>, s1)))"

text \<open>
  \<^verbatim>\<open>upsertUser\<close>. The key of table \<^verbatim>\<open>users\<close> is \<^verbatim>\<open>AUTOINCREMENT\<close>: the database
  draws the next id before it finds the conflict on \<^verbatim>\<open>email\<close>, so an upsert that
  updates a row uses up an id as well.
\<close>

definition upsertUser :: "(nat \<Rightarrow> int) \<Rightarrow> server \<Rightarrow> string \<Rightarrow> bool \<Rightarrow> server" where
  "upsertUser clk s e isAdminFlag =
     (let (t, s1) = nowIso clk s;
          flag = (if isAdminFlag then 1 else 0)
      in if \<exists>u \<in> set (users s1). email u = e
         then s1\<lparr>users := map (\<lambda>u. if email u = e then u\<lparr>is_admin := flag\<rparr> else u) (users s1),
                 next_user_id := Suc (next_user_id s1)\<rparr>
         else s1\<lparr>users := users s1 @
                      [\<lparr>user_id = next_user_id s1, email = e, is_admin = flag,
                        user_created_at = t\<rparr>],
                 next_user_id := Suc (next_user_id s1)\<rparr>)"

text \<open>
  \<^verbatim>\<open>seedUsers\<close>, run once when the process starts. Its three arguments are the
  environment: whether \<^verbatim>\<open>NODE_ENV\<close> is \<^verbatim>\<open>production\<close>, and the lists
  \<^verbatim>\<open>TEST_USERS\<close> and \<^verbatim>\<open>ADMIN_EMAILS\<close>.
\<close>

definition seedUsers ::
  "(nat \<Rightarrow> int) \<Rightarrow> server \<Rightarrow> bool \<Rightarrow> string list \<Rightarrow> string list \<Rightarrow> server" where
  "seedUsers clk s production TEST_USERS ADMIN_EMAILS =
     (let tests = (if \<not> production \<and> TEST_USERS = []
                   then [''admin@example.com'', ''user1@example.com'', ''user2@example.com'']
                   else TEST_USERS)
      in fold (\<lambda>e acc. upsertUser clk acc e True) (tests @ ADMIN_EMAILS) s)"

definition requireAuth ::
  "(nat \<Rightarrow> int) \<Rightarrow> server \<Rightarrow> string option \<Rightarrow> (response + session) \<times> server" where
  "requireAuth clk s cookie =
     (let (sess, s1) = getSession clk s cookie
      in case sess of
           None \<Rightarrow> (Inl (JsonError 401 ''Unauthorized''), s1)
         | Some se \<Rightarrow> (Inr se, s1))"

definition requireAdmin ::
  "(nat \<Rightarrow> int) \<Rightarrow> server \<Rightarrow> string option \<Rightarrow> (response + session) \<times> server" where
  "requireAdmin clk s cookie =
     (let (auth, s1) = requireAuth clk s cookie
      in case auth of
           Inl r \<Rightarrow> (Inl r, s1)
         | Inr se \<Rightarrow>
             if \<not> isAdmin se then (Inl (JsonError 403 ''Forbidden''), s1)
             else (Inr se, s1))"

text \<open>\<^verbatim>\<open>GET /api/room/state\<close>; \<open>room\<close> is the query parameter.\<close>

definition api_room_state ::
  "(nat \<Rightarrow> int) \<Rightarrow> server \<Rightarrow> string option \<Rightarrow> string option \<Rightarrow> response \<times> server" where
  "api_room_state clk s cookie room =
     (let (auth, s1) = requireAuth clk s cookie
      in case auth of
           Inl r \<Rightarrow> (r, s1)
         | Inr se \<Rightarrow>
             let rid = coalesce room ''main'';
                 (state, s2) = getRoomState clk s1 rid;
                 (t, s3) = Date_now clk s2
             in (JsonState (state_message rid state t), s3))"

text \<open>
  \<^verbatim>\<open>POST /api/room/set-video\<close>. The body has the type the handler declares for it,
  \<^verbatim>\<open>{ roomId?: string; videoPath?: string | null }\<close>; \<open>None\<close> is a member that is
  absent or \<^verbatim>\<open>null\<close>, which \<^verbatim>\<open>??\<close> treats alike.
\<close>

definition api_room_set_video ::
  "(nat \<Rightarrow> int) \<Rightarrow> server \<Rightarrow> string option \<Rightarrow> string option \<Rightarrow> string option
     \<Rightarrow> response \<times> server" where
  "api_room_set_video clk s cookie body_roomId body_videoPath =
     (let (auth, s1) = requireAdmin clk s cookie
      in case auth of
           Inl r \<Rightarrow> (r, s1)
         | Inr se \<Rightarrow>
             let rid = coalesce body_roomId ''main'';
                 vp = (case body_videoPath of None \<Rightarrow> None | Some v \<Rightarrow> Some v);
                 (next, s2) = updateRoomState clk s1 rid
                    \<lparr>u_video_path = Some vp, u_position = Some (Fin 0), u_paused = Some 1,
                     u_playback_rate = None\<rparr>;
                 (t, s3) = Date_now clk s2
             in (JsonOk, broadcastRoom s3 rid (state_message rid next t)))"

text \<open>
  The rows a session is made of, shared by login and invite acceptance. \<open>tok\<close> is the
  value \<^verbatim>\<open>randomToken(32)\<close> drew. Column \<^verbatim>\<open>sessions.token\<close> is \<^verbatim>\<open>UNIQUE\<close>:
  inserting a token that is there already throws.
\<close>

definition insert_session ::
  "(nat \<Rightarrow> int) \<Rightarrow> server \<Rightarrow> nat \<Rightarrow> string \<Rightarrow> response \<times> server" where
  "insert_session clk s uid tok =
     (let (now, s1) = Date_now clk s;
          expiresAt = now + SESSION_TTL_HOURS * 3600 * 1000;
          (created, s2) = nowIso clk s1
      in if \<exists>x \<in> set (sessions s2). s_token x = tok then (Thrown, s2)
         else (JsonOkCookie tok,
               s2\<lparr>sessions := sessions s2 @
                     [\<lparr>s_user_id = uid, s_token = tok, s_expires_at = expiresAt,
                       s_created_at = created\<rparr>]\<rparr>))"

text \<open>
  \<^verbatim>\<open>POST /api/auth/login\<close>. The string methods \<^verbatim>\<open>trim\<close> and \<^verbatim>\<open>toLowerCase\<close>
  belong to the runtime and are parameters.
\<close>

definition api_auth_login ::
  "(string \<Rightarrow> string) \<Rightarrow> (string \<Rightarrow> string) \<Rightarrow> (nat \<Rightarrow> int) \<Rightarrow> server
     \<Rightarrow> string option \<Rightarrow> string \<Rightarrow> response \<times> server" where
  "api_auth_login trim toLowerCase clk s body_email tok =
     (let e = toLowerCase (trim (coalesce body_email []))
      in if e = [] then (JsonError 400 ''Email required'', s)
         else
           (case find (\<lambda>u. email u = e) (users s) of
              None \<Rightarrow> (JsonError 403 ''Email not invited'', s)
            | Some user \<Rightarrow>
                let s1 = s\<lparr>users := map (\<lambda>u. if user_id u = user_id user
                                              then u\<lparr>is_admin := 1\<rparr> else u) (users s)\<rparr>
                in insert_session clk s1 (user_id user) tok))"

text \<open>\<^verbatim>\<open>POST /api/auth/logout\<close>.\<close>

definition api_auth_logout ::
  "(nat \<Rightarrow> int) \<Rightarrow> server \<Rightarrow> string option \<Rightarrow> response \<times> server" where
  "api_auth_logout clk s cookie =
     (let (sess, s1) = getSession clk s cookie
      in case sess of
           None \<Rightarrow> (JsonOkCookie [], s1)
         | Some se \<Rightarrow>
             (JsonOkCookie [],
              s1\<lparr>sessions := filter (\<lambda>x. s_user_id x \<noteq> userId se) (sessions s1)\<rparr>))"

text \<open>\<^verbatim>\<open>POST /api/invites/create\<close>; \<open>tok\<close> is the value \<^verbatim>\<open>randomToken(24)\<close> drew.\<close>

definition api_invites_create ::
  "(string \<Rightarrow> string) \<Rightarrow> (string \<Rightarrow> string) \<Rightarrow> (nat \<Rightarrow> int) \<Rightarrow> server
     \<Rightarrow> string option \<Rightarrow> string option \<Rightarrow> string \<Rightarrow> response \<times> server" where
  "api_invites_create trim toLowerCase clk s cookie body_email tok =
     (let (auth, s1) = requireAdmin clk s cookie
      in case auth of
           Inl r \<Rightarrow> (r, s1)
         | Inr se \<Rightarrow>
             let e = (case body_email of None \<Rightarrow> [] | Some x \<Rightarrow> toLowerCase (trim x))
             in if e = [] then (JsonError 400 ''Email required'', s1)
                else
                  let (created, s2) = nowIso clk s1
                  in if \<exists>i \<in> set (invites s2). i_token i = tok then (Thrown, s2)
                     else (JsonInvite tok,
                           s2\<lparr>invites := invites s2 @
                                 [\<lparr>invite_id = next_invite_id s2, i_token = tok,
                                   i_email = Some e, uses_remaining = 1, i_expires_at = None,
                                   created_by = Some (sess_email se), i_created_at = created\<rparr>],
                              next_invite_id := Suc (next_invite_id s2)\<rparr>))"

text \<open>\<^verbatim>\<open>POST /api/invites/accept\<close>; \<open>tok\<close> is the value \<^verbatim>\<open>randomToken(32)\<close> drew.\<close>

definition api_invites_accept ::
  "(string \<Rightarrow> string) \<Rightarrow> (string \<Rightarrow> string) \<Rightarrow> (nat \<Rightarrow> int) \<Rightarrow> server
     \<Rightarrow> string option \<Rightarrow> string option \<Rightarrow> string \<Rightarrow> response \<times> server" where
  "api_invites_accept trim toLowerCase clk s body_token body_email tok =
     (let token = trim (coalesce body_token []);
          e = toLowerCase (trim (coalesce body_email []))
      in if token = [] \<or> e = [] then (JsonError 400 ''Token and email required'', s)
         else
           (case find (\<lambda>i. i_token i = token) (invites s) of
              None \<Rightarrow> (JsonError 404 ''Invalid invite'', s)
            | Some invite \<Rightarrow>
                if (case i_email invite of None \<Rightarrow> False | Some ie \<Rightarrow> ie \<noteq> [] \<and> ie \<noteq> e)
                then (JsonError 403 ''Invite is for a different email'', s)
                else
                  let (expired, s1) =
                        (case i_expires_at invite of
                           None \<Rightarrow> (False, s)
                         | Some x \<Rightarrow> (let (now, s') = Date_now clk s in (x < now, s')))
                  in if expired then (JsonError 403 ''Invite expired'', s1)
                     else if uses_remaining invite \<le> 0 then (JsonError 403 ''Invite used up'', s1)
                     else
                       let s2 = upsertUser clk s1 e True;
                           s3 = s2\<lparr>invites := map (\<lambda>i. if invite_id i = invite_id invite
                                     then i\<lparr>uses_remaining := uses_remaining i - 1\<rparr> else i)
                                     (invites s2)\<rparr>
                       in (case find (\<lambda>u. email u = e) (users s3) of
                             None \<Rightarrow> (JsonError 403 ''Email not invited'', s3)
                           | Some user \<Rightarrow> insert_session clk s3 (user_id user) tok)))"

section \<open>The states the server can be in\<close>

text \<open>The database before the first start, with no channel and no clock reading.\<close>

definition empty_db :: server where
  "empty_db =
     \<lparr>room_state = Map.empty, users = [], sessions = [], invites = [],
      next_user_id = 1, next_invite_id = 1, socketsByRoom = Map.empty, sent = [],
      ticks = 0\<rparr>"

text \<open>
  A start of the process on the database as it is: the registry of channels is new and
  \<^verbatim>\<open>seedUsers\<close> runs.
\<close>

definition boot ::
  "(nat \<Rightarrow> int) \<Rightarrow> server \<Rightarrow> bool \<Rightarrow> string list \<Rightarrow> string list \<Rightarrow> server" where
  "boot clk s production TEST_USERS ADMIN_EMAILS =
     seedUsers clk (s\<lparr>socketsByRoom := Map.empty\<rparr>) production TEST_USERS ADMIN_EMAILS"

text \<open>
  The command line tool \<^verbatim>\<open>tools/invite.ts\<close> for one address: \<open>tok\<close> is the token it
  drew and \<open>created\<close> the reading of its own clock. A token that is taken makes the
  insertion throw.
\<close>

definition tool_invite :: "server \<Rightarrow> string \<Rightarrow> string \<Rightarrow> int \<Rightarrow> server" where
  "tool_invite s e tok created =
     (if \<exists>i \<in> set (invites s). i_token i = tok then s
      else s\<lparr>invites := invites s @
                 [\<lparr>invite_id = next_invite_id s, i_token = tok, i_email = Some e,
                   uses_remaining = 1, i_expires_at = None, created_by = Some ''cli'',
                   i_created_at = created\<rparr>],
              next_invite_id := Suc (next_invite_id s)\<rparr>)"

text \<open>
  The states reached from an empty database by starting the process and by the
  operations above, in any order. A request to a route that only authenticates (the
  upgrade to a channel, \<^verbatim>\<open>/api/me\<close>, \<^verbatim>\<open>/api/videos\<close>, \<^verbatim>\<open>/api/subtitles\<close>,
  \<^verbatim>\<open>GET /api/invites\<close>) changes the state as \<open>getSession\<close> does.
\<close>

inductive reachable ::
  "(string \<Rightarrow> string) \<Rightarrow> (string \<Rightarrow> string) \<Rightarrow> (json \<Rightarrow> js_error + jsnum) \<Rightarrow> (nat \<Rightarrow> int)
     \<Rightarrow> server \<Rightarrow> bool"
  for trim :: "string \<Rightarrow> string" and toLowerCase :: "string \<Rightarrow> string"
    and cv :: "json \<Rightarrow> js_error + jsnum" and clk :: "nat \<Rightarrow> int" where
  r_start: "reachable trim toLowerCase cv clk (boot clk empty_db production tu ae)"
| r_restart: "reachable trim toLowerCase cv clk s
     \<Longrightarrow> reachable trim toLowerCase cv clk (boot clk s production tu ae)"
| r_open: "reachable trim toLowerCase cv clk s
     \<Longrightarrow> reachable trim toLowerCase cv clk (ws_open clk s w)"
| r_close: "reachable trim toLowerCase cv clk s
     \<Longrightarrow> reachable trim toLowerCase cv clk (ws_close s w)"
| r_message: "reachable trim toLowerCase cv clk s
     \<Longrightarrow> reachable trim toLowerCase cv clk (ws_message cv clk s w parsed)"
| r_auth: "reachable trim toLowerCase cv clk s
     \<Longrightarrow> reachable trim toLowerCase cv clk (snd (getSession clk s cookie))"
| r_room_state: "reachable trim toLowerCase cv clk s
     \<Longrightarrow> reachable trim toLowerCase cv clk (snd (api_room_state clk s cookie room))"
| r_set_video: "reachable trim toLowerCase cv clk s
     \<Longrightarrow> reachable trim toLowerCase cv clk (snd (api_room_set_video clk s cookie room vp))"
| r_login: "reachable trim toLowerCase cv clk s
     \<Longrightarrow> reachable trim toLowerCase cv clk
           (snd (api_auth_login trim toLowerCase clk s body_email tok))"
| r_logout: "reachable trim toLowerCase cv clk s
     \<Longrightarrow> reachable trim toLowerCase cv clk (snd (api_auth_logout clk s cookie))"
| r_create: "reachable trim toLowerCase cv clk s
     \<Longrightarrow> reachable trim toLowerCase cv clk
           (snd (api_invites_create trim toLowerCase clk s cookie body_email tok))"
| r_accept: "reachable trim toLowerCase cv clk s
     \<Longrightarrow> reachable trim toLowerCase cv clk
           (snd (api_invites_accept trim toLowerCase clk s body_token body_email tok))"
| r_tool: "reachable trim toLowerCase cv clk s
     \<Longrightarrow> reachable trim toLowerCase cv clk (tool_invite s e tok created)"

section \<open>Runs of the hub\<close>

text \<open>The channels currently in a room.\<close>

definition members :: "server \<Rightarrow> string \<Rightarrow> ws list" where
  "members s rid = (case socketsByRoom s rid of None \<Rightarrow> [] | Some sockets \<Rightarrow> sockets)"

text \<open>
  The row the next update of a room starts from: the stored row, or the default row
  \<^verbatim>\<open>getRoomState\<close> creates for a room not seen before.
\<close>

definition current_row :: "(nat \<Rightarrow> int) \<Rightarrow> server \<Rightarrow> string \<Rightarrow> room_row" where
  "current_row clk s rid = fst (getRoomState clk s rid)"

text \<open>
  The hub handles one message at a time. \<open>deliver\<close> hands it a list of messages, each
  with the channel it arrived on, and returns the state of the server after each.
\<close>

fun deliver ::
  "(json \<Rightarrow> js_error + jsnum) \<Rightarrow> (nat \<Rightarrow> int) \<Rightarrow> server \<Rightarrow> (ws \<times> json option) list \<Rightarrow> server list" where
  "deliver cv clk s [] = []"
| "deliver cv clk s ((w, parsed) # ms) =
     (let s' = ws_message cv clk s w parsed in s' # deliver cv clk s' ms)"

text \<open>The \<open>updated_at\<close> of a room's row in each of a list of server states.\<close>

definition stamps :: "string \<Rightarrow> server list \<Rightarrow> int list" where
  "stamps rid ss = List.map_filter (\<lambda>s. map_option updated_at (room_state s rid)) ss"

section \<open>Client Reconciler\<close>

text \<open>
  The media element \<^verbatim>\<open>el.videoPlayer\<close>, as far as the reconciler reads and writes it.
  An assignment to \<^verbatim>\<open>playbackRate\<close> or \<^verbatim>\<open>currentTime\<close> and a call of
  \<^verbatim>\<open>pause()\<close> or \<^verbatim>\<open>play()\<close> is the update of a field; the events the user agent
  queues for them are dispatched after the script has returned. Positions and rates are
  the real numbers the doubles denote; clock readings are whole milliseconds. \<open>src\<close>
  holds the video path whose media URL the attribute is set to.
\<close>

record video =
  src :: "string option"
  currentTime :: real
  v_paused :: bool
  v_playbackRate :: real
  seeking :: bool

text \<open>An outbound \<^verbatim>\<open>{ type: "action", action, position, playbackRate }\<close>.\<close>

record action_msg =
  a_action :: string
  a_position :: real
  a_playbackRate :: real

text \<open>
  The fields of the script's \<^verbatim>\<open>state\<close> that the reconciler uses, the media element,
  whether \<^verbatim>\<open>state.ws\<close> is there and open, the messages sent on it so far, whether the
  page has the element \<^verbatim>\<open>el.subtitleSelect\<close>, and the number of clock readings taken so
  far. The presentation calls of \<^verbatim>\<open>applyState\<close> (hints, overlay, control enabling,
  the list of subtitle tracks) touch none of these and are left out.
\<close>

record client =
  applyingRemote :: bool
  currentVideo :: "string option"
  ignoreEventsUntil :: int
  subtitleLoading :: bool
  subtitleLastVideo :: "string option"
  subtitleLastLoadedAt :: int
  subtitleSelect :: bool
  ws_is_open :: bool
  videoPlayer :: video
  outbox :: "action_msg list"
  cticks :: nat

text \<open>
  The \<^verbatim>\<open>data\<close> of a state message as the client destructures it. The hub stores
  finite numbers only and JSON carries no other, so the numbers are finite.
\<close>

record remote =
  d_videoPath :: "string option"
  d_position :: real
  d_paused :: bool
  d_playbackRate :: real
  d_serverTime :: int

definition client_now :: "(nat \<Rightarrow> int) \<Rightarrow> client \<Rightarrow> int \<times> client" where
  "client_now clk c = (clk (cticks c), c\<lparr>cticks := Suc (cticks c)\<rparr>)"

text \<open>A video path is truthy when it is a string that is not empty.\<close>

fun truthy :: "string option \<Rightarrow> bool" where
  "truthy None = False"
| "truthy (Some v) = (v \<noteq> [])"

definition sendAction :: "client \<Rightarrow> string \<Rightarrow> client" where
  "sendAction c action =
     (if \<not> ws_is_open c then c
      else c\<lparr>outbox := outbox c @
                [\<lparr>a_action = action, a_position = currentTime (videoPlayer c),
                  a_playbackRate = v_playbackRate (videoPlayer c)\<rparr>]\<rparr>)"

text \<open>
  The target position of \<^verbatim>\<open>applyState\<close>: \<open>rate\<close> is the element's playback rate,
  \<open>now\<close> the reading of the local clock and \<open>st\<close> the value of
  \<^verbatim>\<open>serverTime || Date.now()\<close>.
\<close>

definition targetTime :: "remote \<Rightarrow> real \<Rightarrow> int \<Rightarrow> int \<Rightarrow> real" where
  "targetTime d rate now st =
     (let delta = max 0 (real_of_int (now - st) / 1000)
      in if d_paused d then d_position d else d_position d + delta * rate)"

text \<open>
  \<^verbatim>\<open>loadSubtitles\<close> is asynchronous. The first definition is the part that runs at the
  call, up to the request for the tracks; it reads the clock when the tracks of this video
  were the last to be loaded. The second is the part that runs once that request has
  settled, in a task of its own.
\<close>

definition loadSubtitles :: "(nat \<Rightarrow> int) \<Rightarrow> client \<Rightarrow> string option \<Rightarrow> client" where
  "loadSubtitles clk c path =
     (if \<not> subtitleSelect c then c
      else if subtitleLoading c then c
      else let (recent, c1) =
                 (if subtitleLastVideo c = path
                  then (let (now, c') = client_now clk c
                        in (now - subtitleLastLoadedAt c' < 30000, c'))
                  else (False, c))
           in if recent then c1
              else let c2 = c1\<lparr>subtitleLoading := True\<rparr>
                   in if \<not> truthy path then c2\<lparr>subtitleLoading := False\<rparr> else c2)"

definition loadSubtitles_settled :: "(nat \<Rightarrow> int) \<Rightarrow> client \<Rightarrow> string option \<Rightarrow> client" where
  "loadSubtitles_settled clk c path =
     (let c1 = c\<lparr>subtitleLoading := False\<rparr>;
          (now, c2) = client_now clk c1
      in c2\<lparr>subtitleLastLoadedAt := now, subtitleLastVideo := path\<rparr>)"

text \<open>
  \<^verbatim>\<open>applyState\<close>, in two parts. The first part takes up the video and the rate of the
  message. When the video changes, the script assigns \<^verbatim>\<open>src\<close> (or removes it and calls
  \<^verbatim>\<open>load()\<close>); what the user agent then does to the element (it starts to load the
  resource and resets the playback position) is the parameter \<open>ua_load\<close>. For a new
  video the script then calls \<^verbatim>\<open>loadSubtitles\<close>.
\<close>

definition applyState_video ::
  "(video \<Rightarrow> video) \<Rightarrow> (nat \<Rightarrow> int) \<Rightarrow> client \<Rightarrow> remote \<Rightarrow> client" where
  "applyState_video ua_load clk c d =
     (let c1 = c\<lparr>applyingRemote := True\<rparr>;
          c2 = (if d_videoPath d \<noteq> currentVideo c1
                then (let c' = c1\<lparr>currentVideo := d_videoPath d\<rparr>
                      in if truthy (d_videoPath d)
                         then loadSubtitles clk
                                (c'\<lparr>videoPlayer := ua_load ((videoPlayer c')\<lparr>src := d_videoPath d\<rparr>)\<rparr>)
                                (d_videoPath d)
                         else c'\<lparr>videoPlayer := ua_load ((videoPlayer c')\<lparr>src := None\<rparr>)\<rparr>)
                else c1)
      in c2\<lparr>videoPlayer := (videoPlayer c2)
              \<lparr>v_playbackRate := (if d_playbackRate d = 0 then 1 else d_playbackRate d)\<rparr>\<rparr>)"

text \<open>
  The second part, for a message that names a video, reads the clock, computes the target,
  compares it with the position the element reports and seeks when they are more than 0.4
  apart, and pauses or plays; at the end the flag is cleared and the deadline set. The
  test \<^verbatim>\<open>Number.isFinite(targetTime)\<close> holds of every real number and is not written.
  \<^verbatim>\<open>play()\<close> is its effect when the user agent lets the video play; the script discards
  the promise it returns. The difference and the comparison with 0.4 are those of the
  reals; the script computes them in doubles, which can decide otherwise when the
  difference is within a rounding error of 0.4.
\<close>

definition applyState ::
  "(video \<Rightarrow> video) \<Rightarrow> (nat \<Rightarrow> int) \<Rightarrow> client \<Rightarrow> remote \<Rightarrow> client" where
  "applyState ua_load clk c d =
     (let c3 = applyState_video ua_load clk c d;
          c7 = (if truthy (d_videoPath d)
                then (let (now, c4) = client_now clk c3;
                          (st, c5) = (if d_serverTime d = 0 then client_now clk c4
                                      else (d_serverTime d, c4));
                          target = targetTime d (v_playbackRate (videoPlayer c5)) now st;
                          diff = \<bar>currentTime (videoPlayer c5) - target\<bar>;
                          c6 = (if diff > 0.4
                                then c5\<lparr>videoPlayer := (videoPlayer c5)\<lparr>currentTime := target\<rparr>\<rparr>
                                else c5)
                      in if d_paused d
                         then c6\<lparr>videoPlayer := (videoPlayer c6)\<lparr>v_paused := True\<rparr>\<rparr>
                         else c6\<lparr>videoPlayer := (videoPlayer c6)\<lparr>v_paused := False\<rparr>\<rparr>)
                else c3);
          c8 = c7\<lparr>applyingRemote := False\<rparr>;
          (now', c9) = client_now clk c8
      in c9\<lparr>ignoreEventsUntil := now' + 600\<rparr>)"

text \<open>The listeners of the media element's events.\<close>

definition on_play :: "(nat \<Rightarrow> int) \<Rightarrow> client \<Rightarrow> client" where
  "on_play clk c =
     (if applyingRemote c then c
      else let (now, c1) = client_now clk c
           in if now < ignoreEventsUntil c1 then c1 else sendAction c1 ''play'')"

definition on_pause :: "(nat \<Rightarrow> int) \<Rightarrow> client \<Rightarrow> client" where
  "on_pause clk c =
     (if applyingRemote c then c
      else let (now, c1) = client_now clk c
           in if now < ignoreEventsUntil c1 then c1
              else if seeking (videoPlayer c1) then c1
              else sendAction c1 ''pause'')"

definition on_seeked :: "(nat \<Rightarrow> int) \<Rightarrow> client \<Rightarrow> client" where
  "on_seeked clk c =
     (if applyingRemote c then c
      else let (now, c1) = client_now clk c
           in if now < ignoreEventsUntil c1 then c1 else sendAction c1 ''seek'')"

definition on_ratechange :: "(nat \<Rightarrow> int) \<Rightarrow> client \<Rightarrow> client" where
  "on_ratechange clk c =
     (if applyingRemote c then c
      else let (now, c1) = client_now clk c
           in if now < ignoreEventsUntil c1 then c1 else sendAction c1 ''rate'')"

text \<open>The media element's events, dispatched one after another.\<close>

datatype media_event = EvPlay | EvPause | EvSeeked | EvRatechange

fun dispatch :: "(nat \<Rightarrow> int) \<Rightarrow> client \<Rightarrow> media_event \<Rightarrow> client" where
  "dispatch clk c EvPlay = on_play clk c"
| "dispatch clk c EvPause = on_pause clk c"
| "dispatch clk c EvSeeked = on_seeked clk c"
| "dispatch clk c EvRatechange = on_ratechange clk c"

fun dispatch_all :: "(nat \<Rightarrow> int) \<Rightarrow> client \<Rightarrow> media_event list \<Rightarrow> client" where
  "dispatch_all clk c [] = c"
| "dispatch_all clk c (ev # evs) = dispatch_all clk (dispatch clk c ev) evs"

section \<open>Auxiliary definitions for the statements\<close>

text \<open>
  The two numbers the handler takes from the payload of an action,
  \<^verbatim>\<open>Number(payload.position ?? 0)\<close> and \<^verbatim>\<open>Number(payload.playbackRate ?? 1)\<close>, and
  the update a valid action is folded into once both are there.
\<close>

definition payload_position :: "(json \<Rightarrow> js_error + jsnum) \<Rightarrow> json \<Rightarrow> js_error + jsnum" where
  "payload_position cv payload = Number cv (nullish (get_prop payload ''position'') (JNum (Fin 0)))"

definition payload_playbackRate :: "(json \<Rightarrow> js_error + jsnum) \<Rightarrow> json \<Rightarrow> js_error + jsnum" where
  "payload_playbackRate cv payload =
     Number cv (nullish (get_prop payload ''playbackRate'') (JNum (Fin 1)))"

definition action_updates :: "jsnum \<Rightarrow> jsnum \<Rightarrow> string \<Rightarrow> updates" where
  "action_updates pos rate k =
     \<lparr>u_video_path = None,
      u_position = (if Number_isFinite pos then Some pos else None),
      u_paused = (if k = ''pause'' then Some 1 else if k = ''play'' then Some 0 else None),
      u_playback_rate = (if Number_isFinite rate then Some rate else None)\<rparr>"

text \<open>
  A concrete server, used to exercise the theorems: one room in mid-playback with two
  channels, one administrator with a live session, a clock that advances by one
  millisecond per reading, and a conversion that reads \<^verbatim>\<open>"12"\<close> as 12, the empty
  string and the empty array as 0, throws on \<^verbatim>\<open>{"toString": 1}\<close> and gives
  \<^verbatim>\<open>NaN\<close> on anything else.
\<close>

definition ex_row :: room_row where
  "ex_row = \<lparr>video_path = Some ''a.mp4'', position = Fin 42, paused = 0,
             playback_rate = Fin 2, updated_at = 900\<rparr>"

definition ex_clk :: "nat \<Rightarrow> int" where
  "ex_clk k = 1000 + int k"

definition ex_cv :: "json \<Rightarrow> js_error + jsnum" where
  "ex_cv v = (if v = JStr ''12'' then Inr (Fin 12)
              else if v = JStr [] then Inr (Fin 0)
              else if v = JArr [] then Inr (Fin 0)
              else if v = JObj [(''toString'', JNum (Fin 1))] then Inl TypeError
              else Inr NaN)"

definition ex_server :: server where
  "ex_server =
     \<lparr>room_state = [''main'' \<mapsto> ex_row],
      users = [\<lparr>user_id = 1, email = ''admin@example.com'', is_admin = 1,
                user_created_at = 100\<rparr>],
      sessions = [\<lparr>s_user_id = 1, s_token = ''t1'', s_expires_at = 1000000,
                   s_created_at = 100\<rparr>],
      invites = [], next_user_id = 2, next_invite_id = 1,
      socketsByRoom = [''main'' \<mapsto> [WS 0 ''main'' 1, WS 1 ''main'' 1]],
      sent = [], ticks = 0\<rparr>"

definition ex_ws :: ws where
  "ex_ws = WS 0 ''main'' 1"

definition ex_bad_pause :: json where
  "ex_bad_pause = JObj [(''type'', JStr ''action''), (''action'', JStr ''pause''),
                        (''position'', JStr ''abc''), (''playbackRate'', JNum (Fin 3))]"

definition ex_seek_true :: json where
  "ex_seek_true = JObj [(''type'', JStr ''action''), (''action'', JStr ''seek''),
                        (''position'', JBool True)]"

definition ex_pause_object :: json where
  "ex_pause_object = JObj [(''type'', JStr ''action''), (''action'', JStr ''pause''),
                           (''position'', JObj [(''toString'', JNum (Fin 1))]),
                           (''playbackRate'', JNum (Fin 3))]"

definition ex_seek_bare :: json where
  "ex_seek_bare = JObj [(''type'', JStr ''action''), (''action'', JStr ''seek'')]"

definition ex_sync :: json where
  "ex_sync = JObj [(''type'', JStr ''action''), (''action'', JStr ''sync''),
                   (''position'', JNum (Fin 42)), (''playbackRate'', JNum (Fin 2))]"

text \<open>
  A second concrete run: a production start with one administrator address, an invite
  made with the command line tool, its acceptance by the guest, and a login of the guest.
\<close>

definition ex_boot :: server where
  "ex_boot = boot ex_clk empty_db True [] [''root@example.com'']"

definition ex_invited :: server where
  "ex_invited = tool_invite ex_boot ''guest@example.com'' ''inv1'' 500"

definition ex_accepted :: server where
  "ex_accepted = snd (api_invites_accept (\<lambda>x. x) (\<lambda>x. x) ex_clk ex_invited
                        (Some ''inv1'') (Some ''guest@example.com'') ''tokG'')"

definition ex_logged_in :: server where
  "ex_logged_in = snd (api_auth_login (\<lambda>x. x) (\<lambda>x. x) ex_clk ex_accepted
                         (Some ''guest@example.com'') ''tokH'')"

text \<open>
  A concrete receiver: it shows \<^verbatim>\<open>a.mp4\<close> at position 9 (or 11.9), playing, with
  its channel open; a third one shows \<^verbatim>\<open>b.mp4\<close> at 11.9. The messages name
  \<^verbatim>\<open>a.mp4\<close> at position 10, sent at the server's time 5000 (or, for the one without a
  stamp, with \<open>serverTime\<close> 0); the receiver's clock reads 7000 first (2000 for the clock
  set near the epoch) and then advances by one millisecond, or, for the slow clock, by a
  second, per reading. Loading a resource resets the element to position 0, paused.
\<close>

definition ex_client :: client where
  "ex_client =
     \<lparr>applyingRemote = False, currentVideo = Some ''a.mp4'', ignoreEventsUntil = 0,
      subtitleLoading = False, subtitleLastVideo = Some ''a.mp4'', subtitleLastLoadedAt = 100,
      subtitleSelect = True, ws_is_open = True,
      videoPlayer = \<lparr>src = Some ''a.mp4'', currentTime = 9, v_paused = False,
                      v_playbackRate = 1, seeking = False\<rparr>,
      outbox = [], cticks = 0\<rparr>"

definition ex_client_near :: client where
  "ex_client_near = ex_client\<lparr>videoPlayer := (videoPlayer ex_client)\<lparr>currentTime := 11.9\<rparr>\<rparr>"

definition ex_client_other :: client where
  "ex_client_other =
     ex_client\<lparr>currentVideo := Some ''b.mp4'', subtitleLastVideo := Some ''b.mp4'',
               videoPlayer := (videoPlayer ex_client)\<lparr>src := Some ''b.mp4'', currentTime := 11.9\<rparr>\<rparr>"

definition ex_playing :: remote where
  "ex_playing = \<lparr>d_videoPath = Some ''a.mp4'', d_position = 10, d_paused = False,
                  d_playbackRate = 1, d_serverTime = 5000\<rparr>"

definition ex_paused :: remote where
  "ex_paused = ex_playing\<lparr>d_paused := True\<rparr>"

definition ex_unstamped :: remote where
  "ex_unstamped = ex_playing\<lparr>d_serverTime := 0\<rparr>"

definition ex_no_video :: remote where
  "ex_no_video = ex_playing\<lparr>d_videoPath := None\<rparr>"

definition ex_load :: "video \<Rightarrow> video" where
  "ex_load v = v\<lparr>currentTime := 0, v_paused := True, seeking := False\<rparr>"

definition ex_client_clk :: "nat \<Rightarrow> int" where
  "ex_client_clk k = 7000 + int k"

definition ex_epoch_clk :: "nat \<Rightarrow> int" where
  "ex_epoch_clk k = 2000 + int k"

definition ex_slow_clk :: "nat \<Rightarrow> int" where
  "ex_slow_clk k = 7000 + 1000 * int k"

section \<open>Properties of the hub\<close>

subsection \<open>Unknown kinds\<close>



subsection \<open>What an accepted action does\<close>

lemma getRoomState_frame [simp]:
  "sent (snd (getRoomState clk s rid)) = sent s"
  "socketsByRoom (snd (getRoomState clk s rid)) = socketsByRoom s"
  "users (snd (getRoomState clk s rid)) = users s"
  "sessions (snd (getRoomState clk s rid)) = sessions s"
  by (auto simp: getRoomState_def nowIso_def Date_now_def Let_def split: option.splits)

lemma getRoomState_existing:
  "room_state s rid = Some row \<Longrightarrow> getRoomState clk s rid = (row, s)"
  by (simp add: getRoomState_def)

lemma updateRoomState_row:
  "fst (updateRoomState clk s rid u) =
     \<lparr>video_path = coalesce_null (u_video_path u) (video_path (current_row clk s rid)),
      position = coalesce (u_position u) (position (current_row clk s rid)),
      paused = coalesce (u_paused u) (paused (current_row clk s rid)),
      playback_rate = coalesce (u_playback_rate u) (playback_rate (current_row clk s rid)),
      updated_at = clk (ticks (snd (getRoomState clk s rid)))\<rparr>"
  by (simp add: updateRoomState_def current_row_def nowIso_def Date_now_def Let_def split_def)

lemma updateRoomState_stored:
  "room_state (snd (updateRoomState clk s rid u)) rid = Some (fst (updateRoomState clk s rid u))"
  by (simp add: updateRoomState_def nowIso_def Date_now_def Let_def split_def)

lemma updateRoomState_frame [simp]:
  "sent (snd (updateRoomState clk s rid u)) = sent s"
  "socketsByRoom (snd (updateRoomState clk s rid u)) = socketsByRoom s"
  "users (snd (updateRoomState clk s rid u)) = users s"
  "sessions (snd (updateRoomState clk s rid u)) = sessions s"
  by (simp_all add: updateRoomState_def nowIso_def Date_now_def Let_def split_def)

lemma broadcastRoom_frame [simp]:
  "room_state (broadcastRoom s rid m) = room_state s"
  "socketsByRoom (broadcastRoom s rid m) = socketsByRoom s"
  "users (broadcastRoom s rid m) = users s"
  "sessions (broadcastRoom s rid m) = sessions s"
  "ticks (broadcastRoom s rid m) = ticks s"
  by (simp_all add: broadcastRoom_def split: option.splits)

lemma broadcastRoom_sent:
  "sent (broadcastRoom s rid m) = sent s @ map (\<lambda>socket. (socket, m)) (members s rid)"
  by (simp add: broadcastRoom_def members_def split: option.splits)

lemma Date_now_frame [simp]:
  "room_state (snd (Date_now clk s)) = room_state s"
  "socketsByRoom (snd (Date_now clk s)) = socketsByRoom s"
  "sent (snd (Date_now clk s)) = sent s"
  "users (snd (Date_now clk s)) = users s"
  "sessions (snd (Date_now clk s)) = sessions s"
  "ticks (snd (Date_now clk s)) = Suc (ticks s)"
  "fst (Date_now clk s) = clk (ticks s)"
  by (simp_all add: Date_now_def)

lemma ws_message_action:
  assumes "get_prop payload ''type'' = Some (JStr ''action'')"
    and "get_prop payload ''action'' = Some (JStr k)" and "k \<in> set action_kinds"
    and "payload_position cv payload = Inr p" and "payload_playbackRate cv payload = Inr r"
  shows "ws_message cv clk s w (Some payload) =
     (let res = updateRoomState clk s (ws_roomId w) (action_updates p r k)
      in broadcastRoom (snd (Date_now clk (snd res))) (ws_roomId w)
           (state_message (ws_roomId w) (fst res) (clk (ticks (snd res)))))"
proof -
  from assms(1) have obj: "is_object payload" by (cases payload) auto
  from assms(3) have mem: "Some (JStr k) \<in> (\<lambda>k. Some (JStr k)) ` set action_kinds" by blast
  from assms(4)
  have p: "Number cv (nullish (get_prop payload ''position'') (JNum (Fin 0))) = Inr p"
    by (simp add: payload_position_def)
  from assms(5)
  have r: "Number cv (nullish (get_prop payload ''playbackRate'') (JNum (Fin 1))) = Inr r"
    by (simp add: payload_playbackRate_def)
  show ?thesis
    using assms(1,2) obj mem
    by (simp add: ws_message_def ws_message_result_def p r action_updates_def Let_def split_def
        Date_now_def)
qed

lemma ws_message_action_row:
  assumes "get_prop payload ''type'' = Some (JStr ''action'')"
    and "get_prop payload ''action'' = Some (JStr k)" and "k \<in> set action_kinds"
    and "payload_position cv payload = Inr p" and "payload_playbackRate cv payload = Inr r"
  shows "room_state (ws_message cv clk s w (Some payload)) (ws_roomId w) =
           Some (fst (updateRoomState clk s (ws_roomId w) (action_updates p r k)))"
  by (simp add: ws_message_action[OF assms] Let_def updateRoomState_stored)

lemma ws_message_action_sent:
  assumes "get_prop payload ''type'' = Some (JStr ''action'')"
    and "get_prop payload ''action'' = Some (JStr k)" and "k \<in> set action_kinds"
    and "payload_position cv payload = Inr p" and "payload_playbackRate cv payload = Inr r"
  shows "sent (ws_message cv clk s w (Some payload)) =
           sent s @ map (\<lambda>socket. (socket,
             state_message (ws_roomId w)
               (fst (updateRoomState clk s (ws_roomId w) (action_updates p r k)))
               (clk (ticks (snd (updateRoomState clk s (ws_roomId w) (action_updates p r k)))))))
             (members s (ws_roomId w))"
  by (simp add: ws_message_action[OF assms] Let_def broadcastRoom_sent members_def)

lemma ws_message_thrown:
  assumes "fst (ws_message_result cv clk s w parsed) = Some e"
  shows "ws_message cv clk s w parsed = s"
  using assms
  by (auto simp: ws_message_def ws_message_result_def Let_def split_def
      split: option.splits sum.splits if_splits)

lemma ex_room [simp]: "room_state ex_server ''main'' = Some ex_row"
  by (simp add: ex_server_def)

lemma ex_members [simp]: "members ex_server ''main'' = [WS 0 ''main'' 1, WS 1 ''main'' 1]"
  by (simp add: ex_server_def members_def)

lemma ex_sent [simp]: "sent ex_server = []"
  by (simp add: ex_server_def)

lemma ex_current [simp]: "current_row clk ex_server ''main'' = ex_row"
  by (simp add: current_row_def getRoomState_existing)

text \<open>
  C4, as the claim states it, fails in two ways. A field that is present and is not a
  number can still be converted to a finite one, and then it is stored, not dropped: on a
  room at position 42, a \<^verbatim>\<open>seek\<close> whose \<open>position\<close> is \<^verbatim>\<open>true\<close> stores position 1.
  And the conversion of a field can throw, and then nothing of the action is applied: a
  \<^verbatim>\<open>pause\<close> whose \<open>position\<close> is the object \<^verbatim>\<open>{"toString": 1}\<close> and whose rate is 3
  ends the handler with \<^verbatim>\<open>TypeError\<close>; the room stays playing at rate 2 and nothing is
  sent.
\<close>

theorem C4_counterexample:
  "get_prop ex_seek_true ''type'' = Some (JStr ''action'')
   \<and> get_prop ex_seek_true ''action'' = Some (JStr ''seek'')
   \<and> get_prop ex_seek_true ''position'' = Some (JBool True)
   \<and> map_option position (room_state ex_server ''main'') = Some (Fin 42)
   \<and> map_option position
        (room_state (ws_message ex_cv ex_clk ex_server ex_ws (Some ex_seek_true)) ''main'')
        = Some (Fin 1)
   \<and> Fin 1 \<noteq> Fin 42
   \<and> get_prop ex_pause_object ''type'' = Some (JStr ''action'')
   \<and> get_prop ex_pause_object ''action'' = Some (JStr ''pause'')
   \<and> get_prop ex_pause_object ''position'' = Some (JObj [(''toString'', JNum (Fin 1))])
   \<and> get_prop ex_pause_object ''playbackRate'' = Some (JNum (Fin 3))
   \<and> fst (ws_message_result ex_cv ex_clk ex_server ex_ws (Some ex_pause_object))
        = Some TypeError
   \<and> ws_message ex_cv ex_clk ex_server ex_ws (Some ex_pause_object) = ex_server
   \<and> map_option paused (room_state ex_server ''main'') = Some 0
   \<and> map_option playback_rate (room_state ex_server ''main'') = Some (Fin 2)
   \<and> sent ex_server = []"
proof -
  have h1: "get_prop ex_seek_true ''type'' = Some (JStr ''action'')"
    by (simp add: ex_seek_true_def)
  have h2: "get_prop ex_seek_true ''action'' = Some (JStr ''seek'')"
    by (simp add: ex_seek_true_def)
  have h3: "''seek'' \<in> set action_kinds" by (simp add: action_kinds_def)
  have h4: "get_prop ex_seek_true ''position'' = Some (JBool True)"
    by (simp add: ex_seek_true_def)
  have p: "payload_position ex_cv ex_seek_true = Inr (Fin 1)"
    by (simp add: payload_position_def h4)
  have r: "payload_playbackRate ex_cv ex_seek_true = Inr (Fin 1)"
    by (simp add: payload_playbackRate_def ex_seek_true_def)
  have row: "room_state (ws_message ex_cv ex_clk ex_server ex_ws (Some ex_seek_true)) ''main''
      = Some (fst (updateRoomState ex_clk ex_server ''main'' (action_updates (Fin 1) (Fin 1) ''seek'')))"
    using ws_message_action_row[OF h1 h2 h3 p r, of ex_clk ex_server ex_ws]
    by (simp add: ex_ws_def)
  have a: "map_option position
        (room_state (ws_message ex_cv ex_clk ex_server ex_ws (Some ex_seek_true)) ''main'')
        = Some (Fin 1)"
    by (simp add: row updateRoomState_row action_updates_def)
  have g1: "get_prop ex_pause_object ''type'' = Some (JStr ''action'')"
    by (simp add: ex_pause_object_def)
  have g2: "get_prop ex_pause_object ''action'' = Some (JStr ''pause'')"
    by (simp add: ex_pause_object_def)
  have g3: "get_prop ex_pause_object ''position'' = Some (JObj [(''toString'', JNum (Fin 1))])"
    by (simp add: ex_pause_object_def)
  have g4: "get_prop ex_pause_object ''playbackRate'' = Some (JNum (Fin 3))"
    by (simp add: ex_pause_object_def)
  have obj: "is_object ex_pause_object" by (simp add: ex_pause_object_def)
  have th: "fst (ws_message_result ex_cv ex_clk ex_server ex_ws (Some ex_pause_object))
        = Some TypeError"
    by (simp add: ws_message_result_def obj g1 g3 ex_cv_def)
  have un: "ws_message ex_cv ex_clk ex_server ex_ws (Some ex_pause_object) = ex_server"
    by (rule ws_message_thrown[OF th])
  have b: "map_option position (room_state ex_server ''main'') = Some (Fin 42)"
    by (simp add: ex_row_def)
  have c: "map_option paused (room_state ex_server ''main'') = Some 0"
    by (simp add: ex_row_def)
  have d: "map_option playback_rate (room_state ex_server ''main'') = Some (Fin 2)"
    by (simp add: ex_row_def)
  have e: "Fin 1 \<noteq> Fin 42" by simp
  have f: "sent ex_server = []" by simp
  from h1 h2 h4 b a e g1 g2 g3 g4 th un c d f show ?thesis by (intro conjI)
qed

text \<open>
  C4, amended. In an accepted action (kind play, pause, seek, rate or sync) for which
  \<^verbatim>\<open>Number\<close> returns on both numeric fields, with \<open>p\<close> for \<open>position\<close> and \<open>r\<close> for
  \<open>playbackRate\<close>: a field whose number is not finite (\<^verbatim>\<open>NaN\<close> or an infinity, as for
  a non-numeric string) is dropped, the row keeping the prior value of that field, and a
  field whose number is finite is stored as that number, whatever the field was (so
  \<^verbatim>\<open>true\<close> is stored as 1). The rest of the action is applied all the same: \<open>paused\<close>
  changes as the kind implies, the video path stays, and the new row is sent to every
  channel in the room.
\<close>

theorem C4_nonfinite_field_dropped:
  assumes "get_prop payload ''type'' = Some (JStr ''action'')"
    and "get_prop payload ''action'' = Some (JStr k)" and "k \<in> set action_kinds"
    and "payload_position cv payload = Inr p"
    and "payload_playbackRate cv payload = Inr r"
  shows "\<exists>new t.
      room_state (ws_message cv clk s w (Some payload)) (ws_roomId w) = Some new
    \<and> sent (ws_message cv clk s w (Some payload))
        = sent s @ map (\<lambda>socket. (socket, state_message (ws_roomId w) new t))
                       (members s (ws_roomId w))
    \<and> fst (ws_message_result cv clk s w (Some payload)) = None
    \<and> video_path new = video_path (current_row clk s (ws_roomId w))
    \<and> paused new = (if k = ''pause'' then 1 else if k = ''play'' then 0
                     else paused (current_row clk s (ws_roomId w)))
    \<and> position new = (if Number_isFinite p then p
                       else position (current_row clk s (ws_roomId w)))
    \<and> playback_rate new = (if Number_isFinite r then r
                            else playback_rate (current_row clk s (ws_roomId w)))"
proof -
  let ?u = "action_updates p r k"
  let ?new = "fst (updateRoomState clk s (ws_roomId w) ?u)"
  let ?t = "clk (ticks (snd (updateRoomState clk s (ws_roomId w) ?u)))"
  have row: "room_state (ws_message cv clk s w (Some payload)) (ws_roomId w) = Some ?new"
    by (rule ws_message_action_row[OF assms])
  have snt: "sent (ws_message cv clk s w (Some payload))
        = sent s @ map (\<lambda>socket. (socket, state_message (ws_roomId w) ?new ?t))
                       (members s (ws_roomId w))"
    by (rule ws_message_action_sent[OF assms])
  from assms(4)
  have p: "Number cv (nullish (get_prop payload ''position'') (JNum (Fin 0))) = Inr p"
    by (simp add: payload_position_def)
  from assms(5)
  have r: "Number cv (nullish (get_prop payload ''playbackRate'') (JNum (Fin 1))) = Inr r"
    by (simp add: payload_playbackRate_def)
  have ok: "fst (ws_message_result cv clk s w (Some payload)) = None"
    by (simp add: ws_message_result_def p r Let_def split_def)
  have vp: "video_path ?new = video_path (current_row clk s (ws_roomId w))"
    by (simp add: updateRoomState_row action_updates_def)
  have pz: "paused ?new = (if k = ''pause'' then 1 else if k = ''play'' then 0
                     else paused (current_row clk s (ws_roomId w)))"
    by (simp add: updateRoomState_row action_updates_def)
  have ps: "position ?new = (if Number_isFinite p then p
                       else position (current_row clk s (ws_roomId w)))"
    by (simp add: updateRoomState_row action_updates_def)
  have pr: "playback_rate ?new = (if Number_isFinite r then r
                            else playback_rate (current_row clk s (ws_roomId w)))"
    by (simp add: updateRoomState_row action_updates_def)
  from row snt ok vp pz ps pr show ?thesis by (intro exI[of _ ?new] exI[of _ ?t] conjI)
qed

theorem C4_witness:
  "get_prop ex_bad_pause ''type'' = Some (JStr ''action'')
   \<and> get_prop ex_bad_pause ''action'' = Some (JStr ''pause'')
   \<and> ''pause'' \<in> set action_kinds
   \<and> get_prop ex_bad_pause ''position'' = Some (JStr ''abc'')
   \<and> payload_position ex_cv ex_bad_pause = Inr NaN
   \<and> payload_playbackRate ex_cv ex_bad_pause = Inr (Fin 3)
   \<and> (\<exists>new t.
        room_state (ws_message ex_cv ex_clk ex_server ex_ws (Some ex_bad_pause)) ''main'' = Some new
      \<and> sent (ws_message ex_cv ex_clk ex_server ex_ws (Some ex_bad_pause))
          = [(WS 0 ''main'' 1, state_message ''main'' new t),
             (WS 1 ''main'' 1, state_message ''main'' new t)]
      \<and> position new = Fin 42 \<and> paused new = 1 \<and> playback_rate new = Fin 3)"
proof -
  have h1: "get_prop ex_bad_pause ''type'' = Some (JStr ''action'')"
    by (simp add: ex_bad_pause_def)
  have h2: "get_prop ex_bad_pause ''action'' = Some (JStr ''pause'')"
    by (simp add: ex_bad_pause_def)
  have h3: "''pause'' \<in> set action_kinds" by (simp add: action_kinds_def)
  have h4: "get_prop ex_bad_pause ''position'' = Some (JStr ''abc'')"
    by (simp add: ex_bad_pause_def)
  have h5: "payload_position ex_cv ex_bad_pause = Inr NaN"
    by (simp add: payload_position_def h4 ex_cv_def)
  have h6: "payload_playbackRate ex_cv ex_bad_pause = Inr (Fin 3)"
    by (simp add: payload_playbackRate_def ex_bad_pause_def)
  from C4_nonfinite_field_dropped[OF h1 h2 h3 h5 h6, of ex_clk ex_server ex_ws]
  obtain new t where
    a: "room_state (ws_message ex_cv ex_clk ex_server ex_ws (Some ex_bad_pause)) (ws_roomId ex_ws)
          = Some new"
    and b: "sent (ws_message ex_cv ex_clk ex_server ex_ws (Some ex_bad_pause))
          = sent ex_server @ map (\<lambda>socket. (socket, state_message (ws_roomId ex_ws) new t))
                       (members ex_server (ws_roomId ex_ws))"
    and c: "paused new = (if ''pause'' = ''pause'' then 1 else if ''pause'' = ''play'' then 0
                     else paused (current_row ex_clk ex_server (ws_roomId ex_ws)))"
    and d: "position new = (if Number_isFinite NaN then NaN
                       else position (current_row ex_clk ex_server (ws_roomId ex_ws)))"
    and e: "playback_rate new = (if Number_isFinite (Fin 3) then Fin 3
                            else playback_rate (current_row ex_clk ex_server (ws_roomId ex_ws)))"
    by (elim exE conjE) (rule that)
  from a have a': "room_state (ws_message ex_cv ex_clk ex_server ex_ws (Some ex_bad_pause)) ''main''
      = Some new"
    by (simp add: ex_ws_def)
  from c have c': "paused new = 1" by simp
  from d have p: "position new = Fin 42" by (simp add: ex_ws_def ex_row_def)
  from e have r: "playback_rate new = Fin 3" by simp
  from b have b': "sent (ws_message ex_cv ex_clk ex_server ex_ws (Some ex_bad_pause))
          = [(WS 0 ''main'' 1, state_message ''main'' new t),
             (WS 1 ''main'' 1, state_message ''main'' new t)]"
    by (simp add: ex_ws_def)
  from a' b' p c' r have ex: "\<exists>new t.
        room_state (ws_message ex_cv ex_clk ex_server ex_ws (Some ex_bad_pause)) ''main'' = Some new
      \<and> sent (ws_message ex_cv ex_clk ex_server ex_ws (Some ex_bad_pause))
          = [(WS 0 ''main'' 1, state_message ''main'' new t),
             (WS 1 ''main'' 1, state_message ''main'' new t)]
      \<and> position new = Fin 42 \<and> paused new = 1 \<and> playback_rate new = Fin 3"
    by (intro exI[of _ new] exI[of _ t] conjI)
  from h1 h2 h3 h4 h5 h6 ex show ?thesis by (intro conjI)
qed

text \<open>
  C5, as the claim states it, fails: an accepted action that omits \<open>position\<close> and
  \<open>playbackRate\<close> does not keep the prior values. On a room at position 42 with rate 2,
  a bare \<^verbatim>\<open>seek\<close> stores position 0 and rate 1.
\<close>

theorem C5_counterexample:
  "get_prop ex_seek_bare ''type'' = Some (JStr ''action'')
   \<and> get_prop ex_seek_bare ''action'' = Some (JStr ''seek'')
   \<and> get_prop ex_seek_bare ''position'' = None
   \<and> get_prop ex_seek_bare ''playbackRate'' = None
   \<and> map_option position (room_state ex_server ''main'') = Some (Fin 42)
   \<and> map_option playback_rate (room_state ex_server ''main'') = Some (Fin 2)
   \<and> map_option position
        (room_state (ws_message ex_cv ex_clk ex_server ex_ws (Some ex_seek_bare)) ''main'')
        = Some (Fin 0)
   \<and> map_option playback_rate
        (room_state (ws_message ex_cv ex_clk ex_server ex_ws (Some ex_seek_bare)) ''main'')
        = Some (Fin 1)
   \<and> Fin 0 \<noteq> Fin 42 \<and> Fin 1 \<noteq> Fin 2"
proof -
  have h1: "get_prop ex_seek_bare ''type'' = Some (JStr ''action'')"
    by (simp add: ex_seek_bare_def)
  have h2: "get_prop ex_seek_bare ''action'' = Some (JStr ''seek'')"
    by (simp add: ex_seek_bare_def)
  have h3: "''seek'' \<in> set action_kinds" by (simp add: action_kinds_def)
  have h4: "get_prop ex_seek_bare ''position'' = None" by (simp add: ex_seek_bare_def)
  have h5: "get_prop ex_seek_bare ''playbackRate'' = None" by (simp add: ex_seek_bare_def)
  have p: "payload_position ex_cv ex_seek_bare = Inr (Fin 0)"
    by (simp add: payload_position_def h4)
  have r: "payload_playbackRate ex_cv ex_seek_bare = Inr (Fin 1)"
    by (simp add: payload_playbackRate_def h5)
  have row: "room_state (ws_message ex_cv ex_clk ex_server ex_ws (Some ex_seek_bare)) ''main''
      = Some (fst (updateRoomState ex_clk ex_server ''main'' (action_updates (Fin 0) (Fin 1) ''seek'')))"
    using ws_message_action_row[OF h1 h2 h3 p r, of ex_clk ex_server ex_ws]
    by (simp add: ex_ws_def)
  have u: "action_updates (Fin 0) (Fin 1) ''seek''
      = \<lparr>u_video_path = None, u_position = Some (Fin 0), u_paused = None,
         u_playback_rate = Some (Fin 1)\<rparr>"
    by (simp add: action_updates_def)
  show ?thesis
    by (simp add: h1 h2 h4 h5 row u updateRoomState_row ex_row_def)
qed

text \<open>
  C5, amended. The handler gives a missing numeric field a default before it validates it:
  in an accepted action, a \<open>position\<close> that is absent or \<^verbatim>\<open>null\<close> is stored as 0 and a
  \<open>playbackRate\<close> that is absent or \<^verbatim>\<open>null\<close> is stored as 1, provided \<^verbatim>\<open>Number\<close>
  returns on the other field. Keeping the prior value is what the store's own update does
  for a field absent from the partial it is given.
\<close>

theorem C5_absent_field_takes_default:
  assumes "get_prop payload ''type'' = Some (JStr ''action'')"
    and "get_prop payload ''action'' = Some (JStr k)" and "k \<in> set action_kinds"
  shows "((get_prop payload ''position'' = None \<or> get_prop payload ''position'' = Some JNull)
          \<and> payload_playbackRate cv payload = Inr r
          \<longrightarrow> (\<exists>new. room_state (ws_message cv clk s w (Some payload)) (ws_roomId w) = Some new
                  \<and> position new = Fin 0))
    \<and> ((get_prop payload ''playbackRate'' = None \<or> get_prop payload ''playbackRate'' = Some JNull)
          \<and> payload_position cv payload = Inr p
          \<longrightarrow> (\<exists>new. room_state (ws_message cv clk s w (Some payload)) (ws_roomId w) = Some new
                  \<and> playback_rate new = Fin 1))
    \<and> (u_position u = None
          \<longrightarrow> position (fst (updateRoomState clk s rid u)) = position (current_row clk s rid))
    \<and> (u_playback_rate u = None
          \<longrightarrow> playback_rate (fst (updateRoomState clk s rid u))
                = playback_rate (current_row clk s rid))"
proof -
  have a: "(get_prop payload ''position'' = None \<or> get_prop payload ''position'' = Some JNull)
          \<and> payload_playbackRate cv payload = Inr r
          \<longrightarrow> (\<exists>new. room_state (ws_message cv clk s w (Some payload)) (ws_roomId w) = Some new
                  \<and> position new = Fin 0)"
  proof (intro impI, elim conjE)
    assume ab: "get_prop payload ''position'' = None \<or> get_prop payload ''position'' = Some JNull"
      and rt: "payload_playbackRate cv payload = Inr r"
    from ab have ps: "payload_position cv payload = Inr (Fin 0)"
      by (auto simp: payload_position_def)
    let ?new = "fst (updateRoomState clk s (ws_roomId w) (action_updates (Fin 0) r k))"
    have row: "room_state (ws_message cv clk s w (Some payload)) (ws_roomId w) = Some ?new"
      by (rule ws_message_action_row[OF assms ps rt])
    have v: "position ?new = Fin 0"
      by (simp add: updateRoomState_row action_updates_def)
    from row v
    show "\<exists>new. room_state (ws_message cv clk s w (Some payload)) (ws_roomId w) = Some new
                  \<and> position new = Fin 0"
      by (intro exI[of _ ?new] conjI)
  qed
  have b: "(get_prop payload ''playbackRate'' = None \<or> get_prop payload ''playbackRate'' = Some JNull)
          \<and> payload_position cv payload = Inr p
          \<longrightarrow> (\<exists>new. room_state (ws_message cv clk s w (Some payload)) (ws_roomId w) = Some new
                  \<and> playback_rate new = Fin 1)"
  proof (intro impI, elim conjE)
    assume ab: "get_prop payload ''playbackRate'' = None
                \<or> get_prop payload ''playbackRate'' = Some JNull"
      and ps: "payload_position cv payload = Inr p"
    from ab have rt: "payload_playbackRate cv payload = Inr (Fin 1)"
      by (auto simp: payload_playbackRate_def)
    let ?new = "fst (updateRoomState clk s (ws_roomId w) (action_updates p (Fin 1) k))"
    have row: "room_state (ws_message cv clk s w (Some payload)) (ws_roomId w) = Some ?new"
      by (rule ws_message_action_row[OF assms ps rt])
    have v: "playback_rate ?new = Fin 1"
      by (simp add: updateRoomState_row action_updates_def)
    from row v
    show "\<exists>new. room_state (ws_message cv clk s w (Some payload)) (ws_roomId w) = Some new
                  \<and> playback_rate new = Fin 1"
      by (intro exI[of _ ?new] conjI)
  qed
  have sp: "u_position u = None
          \<longrightarrow> position (fst (updateRoomState clk s rid u)) = position (current_row clk s rid)"
    by (simp add: updateRoomState_row)
  have sr: "u_playback_rate u = None
          \<longrightarrow> playback_rate (fst (updateRoomState clk s rid u))
                = playback_rate (current_row clk s rid)"
    by (simp add: updateRoomState_row)
  from a b sp sr show ?thesis by (intro conjI)
qed

theorem C5_witness:
  "get_prop ex_seek_bare ''type'' = Some (JStr ''action'')
   \<and> get_prop ex_seek_bare ''action'' = Some (JStr ''seek'')
   \<and> ''seek'' \<in> set action_kinds
   \<and> get_prop ex_seek_bare ''position'' = None
   \<and> get_prop ex_seek_bare ''playbackRate'' = None
   \<and> payload_position ex_cv ex_seek_bare = Inr (Fin 0)
   \<and> payload_playbackRate ex_cv ex_seek_bare = Inr (Fin 1)
   \<and> (\<exists>new. room_state (ws_message ex_cv ex_clk ex_server ex_ws (Some ex_seek_bare)) ''main''
          = Some new \<and> position new = Fin 0)
   \<and> (\<exists>new. room_state (ws_message ex_cv ex_clk ex_server ex_ws (Some ex_seek_bare)) ''main''
          = Some new \<and> playback_rate new = Fin 1)
   \<and> u_position \<lparr>u_video_path = None, u_position = None, u_paused = Some 1,
                  u_playback_rate = None\<rparr> = None
   \<and> position (fst (updateRoomState ex_clk ex_server ''main''
         \<lparr>u_video_path = None, u_position = None, u_paused = Some 1,
          u_playback_rate = None\<rparr>)) = Fin 42
   \<and> playback_rate (fst (updateRoomState ex_clk ex_server ''main''
         \<lparr>u_video_path = None, u_position = None, u_paused = Some 1,
          u_playback_rate = None\<rparr>)) = Fin 2"
proof -
  have h1: "get_prop ex_seek_bare ''type'' = Some (JStr ''action'')"
    by (simp add: ex_seek_bare_def)
  have h2: "get_prop ex_seek_bare ''action'' = Some (JStr ''seek'')"
    by (simp add: ex_seek_bare_def)
  have h3: "''seek'' \<in> set action_kinds" by (simp add: action_kinds_def)
  have h4: "get_prop ex_seek_bare ''position'' = None" by (simp add: ex_seek_bare_def)
  have h5: "get_prop ex_seek_bare ''playbackRate'' = None" by (simp add: ex_seek_bare_def)
  have h6: "payload_position ex_cv ex_seek_bare = Inr (Fin 0)"
    by (simp add: payload_position_def h4)
  have h7: "payload_playbackRate ex_cv ex_seek_bare = Inr (Fin 1)"
    by (simp add: payload_playbackRate_def h5)
  let ?u = "\<lparr>u_video_path = None, u_position = None, u_paused = Some 1,
             u_playback_rate = None\<rparr>"
  note C5 = C5_absent_field_takes_default[OF h1 h2 h3,
      of ex_cv "Fin 1" ex_clk ex_server ex_ws "Fin 0" ?u "''main''"]
  from C5[THEN conjunct1, rule_format, OF conjI[OF disjI1[OF h4] h7]]
  have a: "\<exists>new. room_state (ws_message ex_cv ex_clk ex_server ex_ws (Some ex_seek_bare)) ''main''
          = Some new \<and> position new = Fin 0"
    by (simp add: ex_ws_def)
  from C5[THEN conjunct2, THEN conjunct1, rule_format, OF conjI[OF disjI1[OF h5] h6]]
  have b: "\<exists>new. room_state (ws_message ex_cv ex_clk ex_server ex_ws (Some ex_seek_bare)) ''main''
          = Some new \<and> playback_rate new = Fin 1"
    by (simp add: ex_ws_def)
  have u0: "u_position ?u = None" by simp
  from C5[THEN conjunct2, THEN conjunct2, THEN conjunct1]
  have d': "position (fst (updateRoomState ex_clk ex_server ''main'' ?u)) = Fin 42"
    by (simp add: ex_row_def)
  from C5[THEN conjunct2, THEN conjunct2, THEN conjunct2]
  have e': "playback_rate (fst (updateRoomState ex_clk ex_server ''main'' ?u)) = Fin 2"
    by (simp add: ex_row_def)
  from h1 h2 h3 h4 h5 h6 h7 a b u0 d' e' show ?thesis by (intro conjI)
qed

text \<open>
  C8. Idempotence of sync: for a room whose row is \<open>r\<close>, with finite position and rate,
  a \<^verbatim>\<open>sync\<close> action carrying exactly that position and that rate leaves a row equal to
  \<open>r\<close> in every field but \<open>updated_at\<close>, which becomes the reading of the clock.
\<close>

theorem C8_sync_idempotent:
  assumes "get_prop payload ''type'' = Some (JStr ''action'')"
    and "get_prop payload ''action'' = Some (JStr ''sync'')"
    and "room_state s (ws_roomId w) = Some r"
    and "get_prop payload ''position'' = Some (JNum (position r))"
    and "get_prop payload ''playbackRate'' = Some (JNum (playback_rate r))"
    and "Number_isFinite (position r)" and "Number_isFinite (playback_rate r)"
  shows "room_state (ws_message cv clk s w (Some payload)) (ws_roomId w)
           = Some (r\<lparr>updated_at := clk (ticks s)\<rparr>)"
proof -
  have k: "''sync'' \<in> set action_kinds" by (simp add: action_kinds_def)
  have cur: "current_row clk s (ws_roomId w) = r"
    by (simp add: current_row_def getRoomState_existing[OF assms(3)])
  have p: "payload_position cv payload = Inr (position r)"
    using assms(4) by (simp add: payload_position_def)
  have q: "payload_playbackRate cv payload = Inr (playback_rate r)"
    using assms(5) by (simp add: payload_playbackRate_def)
  have u: "action_updates (position r) (playback_rate r) ''sync''
      = \<lparr>u_video_path = None, u_position = Some (position r), u_paused = None,
         u_playback_rate = Some (playback_rate r)\<rparr>"
    using assms(6,7) by (simp add: action_updates_def)
  show ?thesis
    by (simp add: ws_message_action_row[OF assms(1,2) k p q] u updateRoomState_row cur
        getRoomState_existing[OF assms(3)])
qed

theorem C8_witness:
  "get_prop ex_sync ''type'' = Some (JStr ''action'')
   \<and> get_prop ex_sync ''action'' = Some (JStr ''sync'')
   \<and> room_state ex_server (ws_roomId ex_ws) = Some ex_row
   \<and> get_prop ex_sync ''position'' = Some (JNum (position ex_row))
   \<and> get_prop ex_sync ''playbackRate'' = Some (JNum (playback_rate ex_row))
   \<and> Number_isFinite (position ex_row) \<and> Number_isFinite (playback_rate ex_row)
   \<and> room_state (ws_message ex_cv ex_clk ex_server ex_ws (Some ex_sync)) ''main''
       = Some \<lparr>video_path = Some ''a.mp4'', position = Fin 42, paused = 0,
               playback_rate = Fin 2, updated_at = 1000\<rparr>"
proof -
  have h1: "get_prop ex_sync ''type'' = Some (JStr ''action'')" by (simp add: ex_sync_def)
  have h2: "get_prop ex_sync ''action'' = Some (JStr ''sync'')" by (simp add: ex_sync_def)
  have h3: "room_state ex_server (ws_roomId ex_ws) = Some ex_row" by (simp add: ex_ws_def)
  have h4: "get_prop ex_sync ''position'' = Some (JNum (position ex_row))"
    by (simp add: ex_sync_def ex_row_def)
  have h5: "get_prop ex_sync ''playbackRate'' = Some (JNum (playback_rate ex_row))"
    by (simp add: ex_sync_def ex_row_def)
  have h6: "Number_isFinite (position ex_row)" by (simp add: ex_row_def)
  have h7: "Number_isFinite (playback_rate ex_row)" by (simp add: ex_row_def)
  have t0: "ticks ex_server = 0" by (simp add: ex_server_def)
  from C8_sync_idempotent[OF h1 h2 h3 h4 h5 h6 h7, of ex_cv ex_clk]
  have "room_state (ws_message ex_cv ex_clk ex_server ex_ws (Some ex_sync)) ''main''
       = Some \<lparr>video_path = Some ''a.mp4'', position = Fin 42, paused = 0,
               playback_rate = Fin 2, updated_at = 1000\<rparr>"
    by (simp add: ex_ws_def ex_row_def ex_clk_def t0)
  with h1 h2 h3 h4 h5 h6 h7 show ?thesis by (intro conjI)
qed

subsection \<open>Time stamps\<close>

lemma ws_message_cases:
  "ws_message cv clk s w parsed = s
   \<or> (\<exists>payload k p r. parsed = Some payload
         \<and> get_prop payload ''type'' = Some (JStr ''action'')
         \<and> get_prop payload ''action'' = Some (JStr k) \<and> k \<in> set action_kinds
         \<and> payload_position cv payload = Inr p \<and> payload_playbackRate cv payload = Inr r)"
  by (auto simp: ws_message_def ws_message_result_def payload_position_def
      payload_playbackRate_def Let_def split: option.splits sum.splits)

lemma getRoomState_stored:
  "room_state (snd (getRoomState clk s rid)) rid = Some (fst (getRoomState clk s rid))"
  by (auto simp: getRoomState_def nowIso_def Date_now_def Let_def split: option.splits)

lemma getRoomState_other:
  "rid' \<noteq> rid \<Longrightarrow> room_state (snd (getRoomState clk s rid')) rid = room_state s rid"
  by (auto simp: getRoomState_def nowIso_def Date_now_def Let_def split: option.splits)

lemma getRoomState_ticks: "ticks s \<le> ticks (snd (getRoomState clk s rid))"
  by (auto simp: getRoomState_def nowIso_def Date_now_def Let_def split: option.splits)

lemma updateRoomState_other:
  "rid' \<noteq> rid \<Longrightarrow> room_state (snd (updateRoomState clk s rid' u)) rid = room_state s rid"
  by (simp add: updateRoomState_def nowIso_def Date_now_def Let_def split_def getRoomState_other)

lemma updateRoomState_ticks:
  "ticks (snd (updateRoomState clk s rid u)) = Suc (ticks (snd (getRoomState clk s rid)))"
  by (simp add: updateRoomState_def nowIso_def Date_now_def Let_def split_def)

lemma ws_message_stamp:
  assumes m: "mono clk" and r: "room_state s rid = Some r" and le: "updated_at r \<le> clk (ticks s)"
  shows "\<exists>r'. room_state (ws_message cv clk s w parsed) rid = Some r'
           \<and> updated_at r \<le> updated_at r'
           \<and> updated_at r' \<le> clk (ticks (ws_message cv clk s w parsed))"
proof -
  consider (same) "ws_message cv clk s w parsed = s"
    | (act) payload k pv rv where "parsed = Some payload"
        "get_prop payload ''type'' = Some (JStr ''action'')"
        "get_prop payload ''action'' = Some (JStr k)" "k \<in> set action_kinds"
        "payload_position cv payload = Inr pv" "payload_playbackRate cv payload = Inr rv"
    using ws_message_cases[of cv clk s w parsed] by blast
  then show ?thesis
  proof cases
    case same
    with r le show ?thesis by simp
  next
    case act
    let ?u = "action_updates pv rv k"
    let ?res = "updateRoomState clk s (ws_roomId w) ?u"
    have eq: "ws_message cv clk s w parsed =
        broadcastRoom (snd (Date_now clk (snd ?res))) (ws_roomId w)
           (state_message (ws_roomId w) (fst ?res) (clk (ticks (snd ?res))))"
      using ws_message_action[OF act(2,3,4,5,6), of clk s w] act(1) by (simp add: Let_def)
    have tk: "ticks (ws_message cv clk s w parsed) = Suc (ticks (snd ?res))"
      by (simp add: eq)
    have t1: "ticks s \<le> ticks (snd (getRoomState clk s (ws_roomId w)))"
      by (rule getRoomState_ticks)
    show ?thesis
    proof (cases "ws_roomId w = rid")
      case True
      have row: "room_state (ws_message cv clk s w parsed) rid = Some (fst ?res)"
        using True by (simp add: eq updateRoomState_stored)
      have st: "updated_at (fst ?res) = clk (ticks (snd (getRoomState clk s (ws_roomId w))))"
        by (simp add: updateRoomState_row)
      have a: "updated_at r \<le> updated_at (fst ?res)"
        using le monoD[OF m t1] by (simp add: st)
      have b: "updated_at (fst ?res) \<le> clk (ticks (ws_message cv clk s w parsed))"
        by (simp add: st tk updateRoomState_ticks monoD[OF m])
      from row a b show ?thesis by (intro exI[of _ "fst ?res"] conjI)
    next
      case False
      have row: "room_state (ws_message cv clk s w parsed) rid = Some r"
        using False r by (simp add: eq updateRoomState_other)
      have "ticks s \<le> ticks (ws_message cv clk s w parsed)"
        using t1 by (simp add: tk updateRoomState_ticks)
      from monoD[OF m this] le
      have b: "updated_at r \<le> clk (ticks (ws_message cv clk s w parsed))" by simp
      from row b show ?thesis by (intro exI[of _ r] conjI) simp_all
    qed
  qed
qed

lemma stamps_Cons:
  "room_state s rid = Some r \<Longrightarrow> stamps rid (s # ss) = updated_at r # stamps rid ss"
  by (simp add: stamps_def List.map_filter_simps)

lemma deliver_stamps:
  assumes m: "mono clk"
  shows "room_state s rid = Some r \<Longrightarrow> updated_at r \<le> clk (ticks s)
     \<Longrightarrow> sorted (updated_at r # stamps rid (deliver cv clk s msgs))
         \<and> length (stamps rid (deliver cv clk s msgs)) = length msgs"
proof (induction msgs arbitrary: s r)
  case Nil
  then show ?case by (simp add: stamps_def List.map_filter_simps)
next
  case (Cons wm msgs)
  obtain w parsed where wm: "wm = (w, parsed)" by (cases wm)
  let ?s' = "ws_message cv clk s w parsed"
  from ws_message_stamp[OF m Cons.prems, of cv w parsed]
  obtain r' where r': "room_state ?s' rid = Some r'" and le: "updated_at r \<le> updated_at r'"
    and fut: "updated_at r' \<le> clk (ticks ?s')"
    by (elim exE conjE)
  from Cons.IH[OF r' fut]
  have ih: "sorted (updated_at r' # stamps rid (deliver cv clk ?s' msgs))"
    and len: "length (stamps rid (deliver cv clk ?s' msgs)) = length msgs"
    by simp_all
  have st: "stamps rid (deliver cv clk s (wm # msgs))
      = updated_at r' # stamps rid (deliver cv clk ?s' msgs)"
    by (simp add: wm Let_def stamps_Cons[OF r'])
  from ih le have "sorted (updated_at r # updated_at r' # stamps rid (deliver cv clk ?s' msgs))"
    by auto
  with st len show ?case by simp
qed

lemma ex_clk_mono: "mono ex_clk"
  by (rule monoI) (simp add: ex_clk_def)

text \<open>
  C7. Let the clock be non-decreasing. For a room created fresh by \<open>getRoomState\<close> and any
  list of messages handled after that, the \<open>updated_at\<close> of the room's row, read after the
  creation and after each message, is a non-decreasing list with one entry per state (the
  row is never lost). Every update stamps the row with the reading of the clock it takes.
\<close>

theorem C7_updatedAt_nondecreasing:
  assumes "mono clk" and "room_state s0 rid = None"
  shows "sorted (stamps rid (snd (getRoomState clk s0 rid)
                    # deliver cv clk (snd (getRoomState clk s0 rid)) msgs))
       \<and> length (stamps rid (snd (getRoomState clk s0 rid)
                    # deliver cv clk (snd (getRoomState clk s0 rid)) msgs)) = Suc (length msgs)
       \<and> updated_at (fst (updateRoomState clk s rid' u))
           = clk (ticks (snd (getRoomState clk s rid')))"
proof -
  let ?s = "snd (getRoomState clk s0 rid)"
  let ?r = "fst (getRoomState clk s0 rid)"
  have r: "room_state ?s rid = Some ?r" by (rule getRoomState_stored)
  have tk: "updated_at ?r = clk (ticks s0)" "ticks ?s = Suc (ticks s0)"
    using assms(2) by (simp_all add: getRoomState_def nowIso_def Date_now_def Let_def)
  have le: "updated_at ?r \<le> clk (ticks ?s)"
    using monoD[OF assms(1), of "ticks s0" "Suc (ticks s0)"] by (simp add: tk)
  from deliver_stamps[OF assms(1) r le, of cv msgs]
  have a: "sorted (stamps rid (?s # deliver cv clk ?s msgs))"
    and b: "length (stamps rid (?s # deliver cv clk ?s msgs)) = Suc (length msgs)"
    by (simp_all add: stamps_Cons[OF r])
  have c: "updated_at (fst (updateRoomState clk s rid' u))
           = clk (ticks (snd (getRoomState clk s rid')))"
    by (simp add: updateRoomState_row)
  from a b c show ?thesis by (intro conjI)
qed

theorem C7_witness:
  "mono ex_clk \<and> room_state empty_db ''main'' = None
   \<and> stamps ''main'' (snd (getRoomState ex_clk empty_db ''main'')
          # deliver ex_cv ex_clk (snd (getRoomState ex_clk empty_db ''main''))
              [(ex_ws, Some ex_sync), (ex_ws, Some ex_seek_bare)])
       = [1000, 1001, 1003]
   \<and> sorted [1000, 1001, 1003 :: int]"
proof -
  have h1: "mono ex_clk" by (rule ex_clk_mono)
  have h2: "room_state empty_db ''main'' = None" by (simp add: empty_db_def)
  have ev: "stamps ''main'' (snd (getRoomState ex_clk empty_db ''main'')
          # deliver ex_cv ex_clk (snd (getRoomState ex_clk empty_db ''main''))
              [(ex_ws, Some ex_sync), (ex_ws, Some ex_seek_bare)])
       = [1000, 1001, 1003]"
    by (simp add: stamps_def List.map_filter_simps getRoomState_def updateRoomState_def
        nowIso_def Date_now_def ws_message_def ws_message_result_def broadcastRoom_def
        state_message_def
        empty_db_def ex_clk_def ex_ws_def ex_sync_def ex_seek_bare_def action_kinds_def
        Let_def)
  from C7_updatedAt_nondecreasing[OF h1 h2, of ex_cv
      "[(ex_ws, Some ex_sync), (ex_ws, Some ex_seek_bare)]"]
  have "sorted (stamps ''main'' (snd (getRoomState ex_clk empty_db ''main'')
          # deliver ex_cv ex_clk (snd (getRoomState ex_clk empty_db ''main''))
              [(ex_ws, Some ex_sync), (ex_ws, Some ex_seek_bare)]))"
    by (rule conjunct1)
  then have "sorted [1000, 1001, 1003 :: int]" by (simp only: ev)
  with h1 h2 ev show ?thesis by (intro conjI)
qed

subsection \<open>Setting the video\<close>

lemma getSession_frame [simp]:
  "room_state (snd (getSession clk s cookie)) = room_state s"
  "socketsByRoom (snd (getSession clk s cookie)) = socketsByRoom s"
  "sent (snd (getSession clk s cookie)) = sent s"
  "users (snd (getSession clk s cookie)) = users s"
  by (auto simp: getSession_def Date_now_def Let_def split: option.splits list.splits prod.splits)

lemma requireAuth_frame [simp]:
  "room_state (snd (requireAuth clk s cookie)) = room_state s"
  "socketsByRoom (snd (requireAuth clk s cookie)) = socketsByRoom s"
  "sent (snd (requireAuth clk s cookie)) = sent s"
  "users (snd (requireAuth clk s cookie)) = users s"
  by (simp_all add: requireAuth_def split_def Let_def split: option.splits)

lemma requireAdmin_frame [simp]:
  "room_state (snd (requireAdmin clk s cookie)) = room_state s"
  "socketsByRoom (snd (requireAdmin clk s cookie)) = socketsByRoom s"
  "sent (snd (requireAdmin clk s cookie)) = sent s"
  "users (snd (requireAdmin clk s cookie)) = users s"
  by (simp_all add: requireAdmin_def split_def Let_def split: sum.splits)


lemma api_room_set_video_admin:
  assumes "fst (requireAdmin clk s cookie) = Inr se"
  shows "api_room_set_video clk s cookie room vp =
     (let s1 = snd (requireAdmin clk s cookie);
          rid = coalesce room ''main'';
          r = updateRoomState clk s1 rid
                \<lparr>u_video_path = Some vp, u_position = Some (Fin 0), u_paused = Some 1,
                 u_playback_rate = None\<rparr>
      in (JsonOk, broadcastRoom (snd (Date_now clk (snd r))) rid
                    (state_message rid (fst r) (clk (ticks (snd r))))))"
  using assms
  by (cases vp) (simp_all add: api_room_set_video_def split_def Let_def Date_now_def)

lemma ex_admin:
  "requireAdmin ex_clk ex_server (Some ''t1'')
     = (Inr \<lparr>userId = 1, sess_email = ''admin@example.com'', isAdmin = True\<rparr>,
        ex_server\<lparr>ticks := 1\<rparr>)"
  by (simp add: requireAdmin_def requireAuth_def getSession_def Date_now_def ex_server_def
      ex_clk_def)



text \<open>
  C6. The claim is that set-video with \<^verbatim>\<open>videoPath = null\<close> clears the room's video.
  The code does not: \<^verbatim>\<open>updates.video_path ?? current.video_path\<close> takes a \<^verbatim>\<open>null\<close>
  that was given for a field that was left out. On the room showing \<^verbatim>\<open>a.mp4\<close>, the
  administrator's request with \<^verbatim>\<open>null\<close> is answered \<^verbatim>\<open>{ ok: true }\<close>, resets
  position and pause, and leaves \<^verbatim>\<open>a.mp4\<close> selected.
\<close>

theorem C6_set_video_null_keeps_path:
  "map_option video_path (room_state ex_server ''main'') = Some (Some ''a.mp4'')
   \<and> fst (api_room_set_video ex_clk ex_server (Some ''t1'') (Some ''main'') None) = JsonOk
   \<and> room_state (snd (api_room_set_video ex_clk ex_server (Some ''t1'') (Some ''main'') None))
        ''main''
       = Some \<lparr>video_path = Some ''a.mp4'', position = Fin 0, paused = 1,
               playback_rate = Fin 2, updated_at = 1001\<rparr>"
proof -
  have h: "fst (requireAdmin ex_clk ex_server (Some ''t1''))
     = Inr \<lparr>userId = 1, sess_email = ''admin@example.com'', isAdmin = True\<rparr>"
    by (simp add: ex_admin)
  have s1: "snd (requireAdmin ex_clk ex_server (Some ''t1'')) = ex_server\<lparr>ticks := 1\<rparr>"
    by (simp add: ex_admin)
  have row: "room_state (ex_server\<lparr>ticks := Suc 0\<rparr>) ''main'' = Some ex_row" by simp
  have a: "map_option video_path (room_state ex_server ''main'') = Some (Some ''a.mp4'')"
    by (simp add: ex_row_def)
  have eq: "api_room_set_video ex_clk ex_server (Some ''t1'') (Some ''main'') None =
     (let s1 = ex_server\<lparr>ticks := 1\<rparr>;
          r = updateRoomState ex_clk s1 ''main''
                \<lparr>u_video_path = Some None, u_position = Some (Fin 0), u_paused = Some 1,
                 u_playback_rate = None\<rparr>
      in (JsonOk, broadcastRoom (snd (Date_now ex_clk (snd r))) ''main''
                    (state_message ''main'' (fst r) (ex_clk (ticks (snd r))))))"
    using api_room_set_video_admin[OF h, of "Some ''main''" None] by (simp add: s1 Let_def)
  have b: "fst (api_room_set_video ex_clk ex_server (Some ''t1'') (Some ''main'') None) = JsonOk"
    by (simp add: eq Let_def)
  have c: "room_state (snd (api_room_set_video ex_clk ex_server (Some ''t1'') (Some ''main'') None))
        ''main''
       = Some \<lparr>video_path = Some ''a.mp4'', position = Fin 0, paused = 1,
               playback_rate = Fin 2, updated_at = 1001\<rparr>"
    by (simp add: eq Let_def updateRoomState_stored updateRoomState_row current_row_def
        getRoomState_existing[OF row] ex_row_def ex_clk_def)
  from a b c show ?thesis by (intro conjI)
qed

subsection \<open>Who is an administrator\<close>

lemma nowIso_frame [simp]:
  "users (snd (nowIso clk s)) = users s"
  "fst (nowIso clk s) = clk (ticks s)"
  by (simp_all add: nowIso_def Date_now_def)

lemma ws_open_users [simp]: "users (ws_open clk s w) = users s"
  by (simp add: ws_open_def ensureRoomSockets_def Let_def split_def split: option.splits)

lemma ws_close_users [simp]: "users (ws_close s w) = users s"
  by (simp add: ws_close_def split: option.splits)

lemma ws_message_users [simp]: "users (ws_message cv clk s w parsed) = users s"
proof -
  consider (same) "ws_message cv clk s w parsed = s"
    | (act) payload k pv rv where "parsed = Some payload"
        "get_prop payload ''type'' = Some (JStr ''action'')"
        "get_prop payload ''action'' = Some (JStr k)" "k \<in> set action_kinds"
        "payload_position cv payload = Inr pv" "payload_playbackRate cv payload = Inr rv"
    using ws_message_cases[of cv clk s w parsed] by blast
  then show ?thesis
  proof cases
    case same
    then show ?thesis by simp
  next
    case act
    show ?thesis
      using ws_message_action[OF act(2,3,4,5,6), of clk s w] act(1) by (simp add: Let_def)
  qed
qed

lemma api_room_state_users [simp]: "users (snd (api_room_state clk s cookie room)) = users s"
  by (simp add: api_room_state_def split_def Let_def split: sum.splits)

lemma api_room_set_video_users [simp]:
  "users (snd (api_room_set_video clk s cookie room vp)) = users s"
  by (simp add: api_room_set_video_def split_def Let_def split: sum.splits)

lemma api_auth_logout_users [simp]: "users (snd (api_auth_logout clk s cookie)) = users s"
  by (simp add: api_auth_logout_def split_def Let_def split: option.splits)

lemma api_invites_create_users [simp]:
  "users (snd (api_invites_create trim toLowerCase clk s cookie body_email tok)) = users s"
  by (simp add: api_invites_create_def split_def Let_def split: sum.splits)

lemma tool_invite_users [simp]: "users (tool_invite s e tok created) = users s"
  by (simp add: tool_invite_def)

lemma insert_session_users [simp]: "users (snd (insert_session clk s uid tok)) = users s"
  by (simp add: insert_session_def split_def Let_def)

lemma upsertUser_all_admin:
  "\<forall>u \<in> set (users s). is_admin u = 1
     \<Longrightarrow> \<forall>u \<in> set (users (upsertUser clk s e True)). is_admin u = 1"
  by (auto simp: upsertUser_def nowIso_def Date_now_def Let_def)

lemma upsertUser_sets:
  "\<forall>u \<in> set (users (upsertUser clk s e True)). email u = e \<longrightarrow> is_admin u = 1"
  by (auto simp: upsertUser_def nowIso_def Date_now_def Let_def)

lemma fold_upsertUser_all_admin:
  "\<forall>u \<in> set (users s). is_admin u = 1
     \<Longrightarrow> \<forall>u \<in> set (users (fold (\<lambda>e acc. upsertUser clk acc e True) es s)). is_admin u = 1"
proof (induction es arbitrary: s)
  case Nil
  then show ?case by simp
next
  case (Cons e es)
  from upsertUser_all_admin[OF Cons.prems, of clk e]
  show ?case by (simp add: Cons.IH)
qed

lemma boot_all_admin:
  "\<forall>u \<in> set (users s). is_admin u = 1
     \<Longrightarrow> \<forall>u \<in> set (users (boot clk s production tu ae)). is_admin u = 1"
  unfolding boot_def seedUsers_def Let_def
  by (rule fold_upsertUser_all_admin) simp

lemma api_auth_login_all_admin:
  "\<forall>u \<in> set (users s). is_admin u = 1
     \<Longrightarrow> \<forall>u \<in> set (users (snd (api_auth_login trim toLowerCase clk s body_email tok))).
           is_admin u = 1"
  by (auto simp: api_auth_login_def Let_def split: option.splits)

lemma api_invites_accept_all_admin:
  assumes "\<forall>u \<in> set (users s). is_admin u = 1"
  shows "\<forall>u \<in> set (users (snd (api_invites_accept trim toLowerCase clk s body_token
             body_email tok))). is_admin u = 1"
proof -
  have up: "\<And>s1 e u. u \<in> set (users (upsertUser clk s1 e True)) \<Longrightarrow> users s1 = users s
      \<Longrightarrow> is_admin u = 1"
    using assms upsertUser_all_admin by metis
  show ?thesis
    using assms
    by (auto simp: api_invites_accept_def Let_def split_def Date_now_def
        split: option.splits if_splits elim!: up)
qed

lemma reachable_all_admin:
  "reachable trim toLowerCase cv clk s \<Longrightarrow> \<forall>u \<in> set (users s). is_admin u = 1"
proof (induction rule: reachable.induct)
  case (r_start production tu ae)
  show ?case by (rule boot_all_admin) (simp add: empty_db_def)
next
  case (r_restart s production tu ae)
  from r_restart.IH show ?case by (rule boot_all_admin)
next
  case (r_login s body_email tok)
  from r_login.IH show ?case by (rule api_auth_login_all_admin)
next
  case (r_accept s body_token body_email tok)
  from r_accept.IH show ?case by (rule api_invites_accept_all_admin)
qed simp_all

lemma find_map_keep:
  "(\<And>x. P (f x) = P x) \<Longrightarrow> find P (map f xs) = map_option f (find P xs)"
  by (induction xs) simp_all

lemma api_auth_login_sets_admin:
  assumes "api_auth_login trim toLowerCase clk s body_email tok = (JsonOkCookie c, s')"
  shows "\<exists>u. find (\<lambda>u. email u = toLowerCase (trim (coalesce body_email []))) (users s') = Some u
             \<and> is_admin u = 1"
proof -
  let ?e = "toLowerCase (trim (coalesce body_email []))"
  from assms obtain user where f: "find (\<lambda>u. email u = ?e) (users s) = Some user"
    by (auto simp: api_auth_login_def Let_def split: if_splits option.splits)
  let ?f = "\<lambda>u. if user_id u = user_id user then u\<lparr>is_admin := 1\<rparr> else u"
  let ?s1 = "s\<lparr>users := map ?f (users s)\<rparr>"
  from assms f have "s' = snd (insert_session clk ?s1 (user_id user) tok)"
    by (auto simp: api_auth_login_def Let_def split: if_splits)
  then have us: "users s' = map ?f (users s)" by simp
  have "find (\<lambda>u. email u = ?e) (map ?f (users s)) = map_option ?f (find (\<lambda>u. email u = ?e) (users s))"
    by (rule find_map_keep) simp
  with f us have "find (\<lambda>u. email u = ?e) (users s') = Some (?f user)" by simp
  moreover have "is_admin (?f user) = 1" by simp
  ultimately show ?thesis by (intro exI[of _ "?f user"] conjI)
qed

lemma insert_session_users_eq:
  "insert_session clk s uid tok = (r, s') \<Longrightarrow> users s' = users s"
  using insert_session_users[of clk s uid tok] by simp

lemma upsertUser_has: "\<exists>u \<in> set (users (upsertUser clk s e b)). email u = e"
proof (cases "\<exists>u \<in> set (users s). email u = e")
  case True
  then obtain u where u: "u \<in> set (users s)" "email u = e" by blast
  let ?f = "\<lambda>u. if email u = e then u\<lparr>is_admin := (if b then 1 else 0)\<rparr> else u"
  have us: "users (upsertUser clk s e b) = map ?f (users s)"
    using True by (simp add: upsertUser_def nowIso_def Date_now_def Let_def)
  from u(1) have "?f u \<in> set (map ?f (users s))" by (simp only: set_map) (rule imageI)
  moreover have "email (?f u) = e" using u(2) by simp
  ultimately show ?thesis unfolding us by blast
next
  case False
  then show ?thesis by (simp add: upsertUser_def nowIso_def Date_now_def Let_def)
qed

lemma api_invites_accept_users:
  assumes "api_invites_accept trim toLowerCase clk s body_token body_email tok
             = (JsonOkCookie c, s')"
  shows "\<exists>s1. users s' = users (upsertUser clk s1 (toLowerCase (trim (coalesce body_email []))) True)"
  using assms
  by (auto simp: api_invites_accept_def Let_def split_def
      split: if_splits option.splits dest!: insert_session_users_eq)

lemma api_invites_accept_sets_admin:
  assumes "api_invites_accept trim toLowerCase clk s body_token body_email tok
             = (JsonOkCookie c, s')"
  shows "\<exists>u. find (\<lambda>u. email u = toLowerCase (trim (coalesce body_email []))) (users s') = Some u
             \<and> is_admin u = 1"
proof -
  let ?e = "toLowerCase (trim (coalesce body_email []))"
  from api_invites_accept_users[OF assms]
  obtain s1 where us: "users s' = users (upsertUser clk s1 ?e True)" by (elim exE)
  from upsertUser_has[of clk s1 ?e True] us
  have "find (\<lambda>u. email u = ?e) (users s') \<noteq> None" by (auto simp: find_None_iff)
  then obtain user where f: "find (\<lambda>u. email u = ?e) (users s') = Some user" by auto
  then have "user \<in> set (users (upsertUser clk s1 ?e True))" "email user = ?e"
    using us by (auto simp: find_Some_iff)
  with upsertUser_sets[of clk s1 ?e] have "is_admin user = 1" by blast
  with f show ?thesis by (intro exI[of _ user] conjI)
qed

lemma getSession_user:
  assumes "fst (getSession clk s cookie) = Some se"
  shows "\<exists>u \<in> set (users s). isAdmin se = (is_admin u = 1)"
proof -
  from assms obtain token x u rest where
    j: "concat (map (\<lambda>x. map (\<lambda>u. (x, u)) (filter (\<lambda>u. user_id u = s_user_id x) (users s)))
                 (filter (\<lambda>x. s_token x = token) (sessions s))) = (x, u) # rest"
    and se: "se = \<lparr>userId = user_id u, sess_email = email u, isAdmin = (is_admin u = 1)\<rparr>"
    by (auto simp: getSession_def Let_def split_def
        split: option.splits if_splits list.splits)
  have "(x, u) \<in> set (concat (map (\<lambda>x. map (\<lambda>u. (x, u))
                 (filter (\<lambda>u. user_id u = s_user_id x) (users s)))
                 (filter (\<lambda>x. s_token x = token) (sessions s))))"
    by (simp only: j list.set_intros)
  then have "u \<in> set (users s)" by auto
  with se show ?thesis by auto
qed

lemma requireAuth_is_admin:
  assumes "\<forall>u \<in> set (users s). is_admin u = 1" and "fst (requireAuth clk s cookie) = Inr se"
  shows "isAdmin se"
proof -
  from assms(2) have "fst (getSession clk s cookie) = Some se"
    by (simp add: requireAuth_def split_def Let_def split: option.splits)
  from getSession_user[OF this] assms(1) show ?thesis by auto
qed

lemma requireAdmin_eq_requireAuth:
  assumes "\<forall>u \<in> set (users s). is_admin u = 1" and "fst (requireAuth clk s cookie) = Inr se"
  shows "requireAdmin clk s cookie = requireAuth clk s cookie"
  using requireAuth_is_admin[OF assms] assms(2)
  by (cases "requireAuth clk s cookie") (simp add: requireAdmin_def)

lemma ex_logged_in_reachable: "reachable (\<lambda>x. x) (\<lambda>x. x) ex_cv ex_clk ex_logged_in"
  unfolding ex_logged_in_def ex_accepted_def ex_invited_def ex_boot_def
  by (intro r_login r_accept r_tool r_start)

text \<open>
  C10. A login that succeeds leaves the row of the address it was made for with
  \<open>is_admin = 1\<close>, and so does an invite acceptance that succeeds. No operation writes any
  other value: in every state reached from an empty database each user row has
  \<open>is_admin = 1\<close>. So in such a state a request that passes \<open>requireAuth\<close> passes
  \<open>requireAdmin\<close> with the same result, and its set-video is carried out.
\<close>

theorem C10_every_session_is_admin:
  "(\<forall>s body_email tok c s'.
       api_auth_login trim toLowerCase clk s body_email tok = (JsonOkCookie c, s')
       \<longrightarrow> (\<exists>u. find (\<lambda>u. email u = toLowerCase (trim (coalesce body_email []))) (users s')
                  = Some u \<and> is_admin u = 1))
   \<and> (\<forall>s body_token body_email tok c s'.
       api_invites_accept trim toLowerCase clk s body_token body_email tok = (JsonOkCookie c, s')
       \<longrightarrow> (\<exists>u. find (\<lambda>u. email u = toLowerCase (trim (coalesce body_email []))) (users s')
                  = Some u \<and> is_admin u = 1))
   \<and> (\<forall>s. reachable trim toLowerCase cv clk s \<longrightarrow> (\<forall>u \<in> set (users s). is_admin u = 1))
   \<and> (\<forall>s cookie se room vp.
       reachable trim toLowerCase cv clk s \<and> fst (requireAuth clk s cookie) = Inr se
       \<longrightarrow> requireAdmin clk s cookie = requireAuth clk s cookie
           \<and> fst (api_room_set_video clk s cookie room vp) = JsonOk)"
proof (intro conjI allI impI)
  fix s body_email tok c s'
  assume "api_auth_login trim toLowerCase clk s body_email tok = (JsonOkCookie c, s')"
  then show "\<exists>u. find (\<lambda>u. email u = toLowerCase (trim (coalesce body_email []))) (users s')
                  = Some u \<and> is_admin u = 1"
    by (rule api_auth_login_sets_admin)
next
  fix s body_token body_email tok c s'
  assume "api_invites_accept trim toLowerCase clk s body_token body_email tok
            = (JsonOkCookie c, s')"
  then show "\<exists>u. find (\<lambda>u. email u = toLowerCase (trim (coalesce body_email []))) (users s')
                  = Some u \<and> is_admin u = 1"
    by (rule api_invites_accept_sets_admin)
next
  fix s
  assume "reachable trim toLowerCase cv clk s"
  then show "\<forall>u \<in> set (users s). is_admin u = 1" by (rule reachable_all_admin)
next
  fix s cookie se room vp
  assume h: "reachable trim toLowerCase cv clk s \<and> fst (requireAuth clk s cookie) = Inr se"
  from h have re: "reachable trim toLowerCase cv clk s" by (rule conjunct1)
  from h have au: "fst (requireAuth clk s cookie) = Inr se" by (rule conjunct2)
  from re have adm: "\<forall>u \<in> set (users s). is_admin u = 1" by (rule reachable_all_admin)
  show "requireAdmin clk s cookie = requireAuth clk s cookie"
    by (rule requireAdmin_eq_requireAuth[OF adm au])
  then have "fst (requireAdmin clk s cookie) = Inr se" using au by simp
  from api_room_set_video_admin[OF this, of room vp]
  show "fst (api_room_set_video clk s cookie room vp) = JsonOk" by (simp add: Let_def)
qed

theorem C10_witness:
  "api_invites_accept (\<lambda>x. x) (\<lambda>x. x) ex_clk ex_invited
       (Some ''inv1'') (Some ''guest@example.com'') ''tokG'' = (JsonOkCookie ''tokG'', ex_accepted)
   \<and> (\<exists>u. find (\<lambda>u. email u = ''guest@example.com'') (users ex_accepted) = Some u
            \<and> is_admin u = 1)
   \<and> api_auth_login (\<lambda>x. x) (\<lambda>x. x) ex_clk ex_accepted (Some ''guest@example.com'') ''tokH''
       = (JsonOkCookie ''tokH'', ex_logged_in)
   \<and> (\<exists>u. find (\<lambda>u. email u = ''guest@example.com'') (users ex_logged_in) = Some u
            \<and> is_admin u = 1)
   \<and> reachable (\<lambda>x. x) (\<lambda>x. x) ex_cv ex_clk ex_logged_in
   \<and> map email (users ex_logged_in) = [''root@example.com'', ''guest@example.com'']
   \<and> fst (requireAuth ex_clk ex_logged_in (Some ''tokG''))
       = Inr \<lparr>userId = 2, sess_email = ''guest@example.com'', isAdmin = True\<rparr>
   \<and> requireAdmin ex_clk ex_logged_in (Some ''tokG'')
       = requireAuth ex_clk ex_logged_in (Some ''tokG'')
   \<and> fst (api_room_set_video ex_clk ex_logged_in (Some ''tokG'') None (Some ''movie.mp4''))
       = JsonOk"
proof -
  note C10 = C10_every_session_is_admin[of "\<lambda>x. x" "\<lambda>x. x" ex_clk ex_cv]
  have fa: "fst (api_invites_accept (\<lambda>x. x) (\<lambda>x. x) ex_clk ex_invited
       (Some ''inv1'') (Some ''guest@example.com'') ''tokG'') = JsonOkCookie ''tokG''"
    by code_simp
  have a: "api_invites_accept (\<lambda>x. x) (\<lambda>x. x) ex_clk ex_invited
       (Some ''inv1'') (Some ''guest@example.com'') ''tokG'' = (JsonOkCookie ''tokG'', ex_accepted)"
    by (simp add: prod_eq_iff fa ex_accepted_def)
  have fl: "fst (api_auth_login (\<lambda>x. x) (\<lambda>x. x) ex_clk ex_accepted
       (Some ''guest@example.com'') ''tokH'') = JsonOkCookie ''tokH''"
    by code_simp
  have l: "api_auth_login (\<lambda>x. x) (\<lambda>x. x) ex_clk ex_accepted (Some ''guest@example.com'') ''tokH''
       = (JsonOkCookie ''tokH'', ex_logged_in)"
    by (simp add: prod_eq_iff fl ex_logged_in_def)
  from C10[THEN conjunct2, THEN conjunct1, rule_format, OF a]
  have a': "\<exists>u. find (\<lambda>u. email u = ''guest@example.com'') (users ex_accepted) = Some u
            \<and> is_admin u = 1"
    by simp
  from C10[THEN conjunct1, rule_format, OF l]
  have l': "\<exists>u. find (\<lambda>u. email u = ''guest@example.com'') (users ex_logged_in) = Some u
            \<and> is_admin u = 1"
    by simp
  have re: "reachable (\<lambda>x. x) (\<lambda>x. x) ex_cv ex_clk ex_logged_in"
    by (rule ex_logged_in_reachable)
  have em: "map email (users ex_logged_in) = [''root@example.com'', ''guest@example.com'']"
    by code_simp
  have au: "fst (requireAuth ex_clk ex_logged_in (Some ''tokG''))
       = Inr \<lparr>userId = 2, sess_email = ''guest@example.com'', isAdmin = True\<rparr>"
    by code_simp
  note c4 = C10[THEN conjunct2, THEN conjunct2, THEN conjunct2, rule_format, OF conjI, OF re au]
  from c4[of None "Some ''movie.mp4''"]
  have ad: "requireAdmin ex_clk ex_logged_in (Some ''tokG'')
       = requireAuth ex_clk ex_logged_in (Some ''tokG'')"
    by (rule conjunct1)
  from c4[of None "Some ''movie.mp4''"]
  have sv: "fst (api_room_set_video ex_clk ex_logged_in (Some ''tokG'') None (Some ''movie.mp4''))
       = JsonOk"
    by (rule conjunct2)
  from a a' l l' re em au ad sv show ?thesis by (intro conjI)
qed

section \<open>Properties of the client reconciler\<close>

subsection \<open>Applying a state message\<close>

lemma client_now_simps [simp]:
  "fst (client_now clk c) = clk (cticks c)"
  "cticks (snd (client_now clk c)) = Suc (cticks c)"
  "outbox (snd (client_now clk c)) = outbox c"
  "applyingRemote (snd (client_now clk c)) = applyingRemote c"
  "ignoreEventsUntil (snd (client_now clk c)) = ignoreEventsUntil c"
  "videoPlayer (snd (client_now clk c)) = videoPlayer c"
  "ws_is_open (snd (client_now clk c)) = ws_is_open c"
  "currentVideo (snd (client_now clk c)) = currentVideo c"
  by (simp_all add: client_now_def)

lemma loadSubtitles_frame [simp]:
  "outbox (loadSubtitles clk c path) = outbox c"
  "applyingRemote (loadSubtitles clk c path) = applyingRemote c"
  "ignoreEventsUntil (loadSubtitles clk c path) = ignoreEventsUntil c"
  "videoPlayer (loadSubtitles clk c path) = videoPlayer c"
  "ws_is_open (loadSubtitles clk c path) = ws_is_open c"
  "currentVideo (loadSubtitles clk c path) = currentVideo c"
  by (simp_all add: loadSubtitles_def Let_def split_def)

lemma applyState_video_frame [simp]:
  "applyingRemote (applyState_video ua clk c d)"
  "outbox (applyState_video ua clk c d) = outbox c"
  "ws_is_open (applyState_video ua clk c d) = ws_is_open c"
  "v_playbackRate (videoPlayer (applyState_video ua clk c d))
     = (if d_playbackRate d = 0 then 1 else d_playbackRate d)"
  by (simp_all add: applyState_video_def Let_def)

lemma applyState_video_same:
  assumes "currentVideo c = d_videoPath d"
  shows "currentTime (videoPlayer (applyState_video ua clk c d)) = currentTime (videoPlayer c)"
    and "cticks (applyState_video ua clk c d) = cticks c"
  using assms by (simp_all add: applyState_video_def Let_def)

lemma applyState_flags:
  "\<not> applyingRemote (applyState ua clk c d)"
  "outbox (applyState ua clk c d) = outbox c"
  "ws_is_open (applyState ua clk c d) = ws_is_open c"
  by (simp_all add: applyState_def Let_def split_def)

lemma applyState_deadline:
  "\<exists>k. Suc k = cticks (applyState ua clk c d)
       \<and> ignoreEventsUntil (applyState ua clk c d) = clk k + 600"
  by (simp add: applyState_def Let_def split_def)

lemma applyState_pauses:
  "truthy (d_videoPath d) \<Longrightarrow> d_paused d \<Longrightarrow> v_paused (videoPlayer (applyState ua clk c d))"
  by (simp add: applyState_def Let_def split_def)

lemma applyState_currentTime:
  assumes "truthy (d_videoPath d)"
  shows "currentTime (videoPlayer (applyState ua clk c d)) =
     (let c3 = applyState_video ua clk c d;
          rate = (if d_playbackRate d = 0 then 1 else d_playbackRate d);
          st = (if d_serverTime d = 0 then clk (Suc (cticks c3)) else d_serverTime d);
          target = targetTime d rate (clk (cticks c3)) st
      in if \<bar>currentTime (videoPlayer c3) - target\<bar> > 0.4 then target
         else currentTime (videoPlayer c3))"
  using assms by (simp add: applyState_def Let_def split_def)

subsection \<open>Swallowed events\<close>

lemma sendAction_frame [simp]:
  "applyingRemote (sendAction c a) = applyingRemote c"
  "ignoreEventsUntil (sendAction c a) = ignoreEventsUntil c"
  "cticks (sendAction c a) = cticks c"
  by (simp_all add: sendAction_def)

lemma dispatch_swallowed_eq:
  assumes "applyingRemote x \<or> clk (cticks x) < ignoreEventsUntil x"
  shows "dispatch clk x ev = (if applyingRemote x then x else snd (client_now clk x))"
proof (cases ev)
  case EvPlay
  with assms show ?thesis by (auto simp: on_play_def split_def Let_def)
next
  case EvPause
  with assms show ?thesis by (auto simp: on_pause_def split_def Let_def)
next
  case EvSeeked
  with assms show ?thesis by (auto simp: on_seeked_def split_def Let_def)
next
  case EvRatechange
  with assms show ?thesis by (auto simp: on_ratechange_def split_def Let_def)
qed

lemma dispatch_swallowed:
  assumes "applyingRemote x \<or> clk (cticks x) < ignoreEventsUntil x"
  shows "outbox (dispatch clk x ev) = outbox x"
    and "ignoreEventsUntil (dispatch clk x ev) = ignoreEventsUntil x"
    and "applyingRemote (dispatch clk x ev) = applyingRemote x"
    and "cticks (dispatch clk x ev) = (if applyingRemote x then cticks x else Suc (cticks x))"
  by (simp_all add: dispatch_swallowed_eq[of x clk, OF assms])

lemma dispatch_all_swallowed:
  "applyingRemote x \<or> (\<forall>j < length evs. clk (cticks x + j) < ignoreEventsUntil x)
     \<Longrightarrow> outbox (dispatch_all clk x evs) = outbox x"
proof (induction evs arbitrary: x)
  case Nil
  then show ?case by simp
next
  case (Cons ev evs)
  let ?x' = "dispatch clk x ev"
  have now: "applyingRemote x \<or> clk (cticks x) < ignoreEventsUntil x"
    using Cons.prems by auto
  note sw = dispatch_swallowed[of x clk, OF now, of ev]
  have "applyingRemote ?x' \<or> (\<forall>j < length evs. clk (cticks ?x' + j) < ignoreEventsUntil ?x')"
  proof (cases "applyingRemote x")
    case True
    then show ?thesis by (simp add: sw)
  next
    case False
    with Cons.prems have all: "\<forall>j < Suc (length evs). clk (cticks x + j) < ignoreEventsUntil x"
      by simp
    have "\<forall>j < length evs. clk (cticks ?x' + j) < ignoreEventsUntil ?x'"
    proof (intro allI impI)
      fix j assume "j < length evs"
      then have "Suc j < Suc (length evs)" by simp
      with all have "clk (cticks x + Suc j) < ignoreEventsUntil x" by blast
      then show "clk (cticks ?x' + j) < ignoreEventsUntil ?x'" using False by (simp add: sw)
    qed
    then show ?thesis by simp
  qed
  from Cons.IH[OF this] show ?case by (simp add: sw)
qed

lemma ex_applied:
  "applyState ex_load ex_client_clk ex_client ex_paused =
     \<lparr>applyingRemote = False, currentVideo = Some ''a.mp4'', ignoreEventsUntil = 7601,
      subtitleLoading = False, subtitleLastVideo = Some ''a.mp4'', subtitleLastLoadedAt = 100,
      subtitleSelect = True, ws_is_open = True,
      videoPlayer = \<lparr>src = Some ''a.mp4'', currentTime = 10, v_paused = True,
                      v_playbackRate = 1, seeking = False\<rparr>,
      outbox = [], cticks = 2\<rparr>"
  by (simp add: applyState_def applyState_video_def targetTime_def client_now_def ex_client_def
      ex_paused_def ex_playing_def ex_client_clk_def Let_def)

text \<open>
  C1. Echo suppression. After \<open>applyState\<close> has applied a state message, the reconciler
  is no longer applying, it has sent nothing, and \<open>ignoreEventsUntil\<close> is the last
  reading of the clock plus 600 ms; for a message that names a video and has
  \<open>paused = true\<close> the media element has been paused. A pause event is swallowed in any
  state in which \<open>applyingRemote\<close> is set or the clock reads less than
  \<open>ignoreEventsUntil\<close>. Hence any sequence of media events whose clock readings all fall
  before the deadline leaves the list of sent actions as it was before the message: no
  pause action (nor any other) goes out within the window.
\<close>

theorem C1_echo_suppression:
  "\<not> applyingRemote (applyState ua clk c d)
   \<and> outbox (applyState ua clk c d) = outbox c
   \<and> (\<exists>k. Suc k = cticks (applyState ua clk c d)
          \<and> ignoreEventsUntil (applyState ua clk c d) = clk k + 600)
   \<and> (truthy (d_videoPath d) \<and> d_paused d \<longrightarrow> v_paused (videoPlayer (applyState ua clk c d)))
   \<and> (applyingRemote x \<or> clk (cticks x) < ignoreEventsUntil x
        \<longrightarrow> outbox (on_pause clk x) = outbox x)
   \<and> ((\<forall>j < length evs. clk (cticks (applyState ua clk c d) + j)
                            < ignoreEventsUntil (applyState ua clk c d))
        \<longrightarrow> outbox (dispatch_all clk (applyState ua clk c d) evs) = outbox c)"
proof (intro conjI impI)
  show "\<not> applyingRemote (applyState ua clk c d)" by (rule applyState_flags)
  show "outbox (applyState ua clk c d) = outbox c" by (rule applyState_flags)
  show "\<exists>k. Suc k = cticks (applyState ua clk c d)
          \<and> ignoreEventsUntil (applyState ua clk c d) = clk k + 600"
    by (rule applyState_deadline)
next
  assume "truthy (d_videoPath d) \<and> d_paused d"
  then show "v_paused (videoPlayer (applyState ua clk c d))" by (simp add: applyState_pauses)
next
  assume "applyingRemote x \<or> clk (cticks x) < ignoreEventsUntil x"
  from dispatch_swallowed(1)[of x clk, OF this, of EvPause]
  show "outbox (on_pause clk x) = outbox x" by simp
next
  assume "\<forall>j < length evs. clk (cticks (applyState ua clk c d) + j)
                            < ignoreEventsUntil (applyState ua clk c d)"
  then have "outbox (dispatch_all clk (applyState ua clk c d) evs) = outbox (applyState ua clk c d)"
    by (intro dispatch_all_swallowed disjI2)
  then show "outbox (dispatch_all clk (applyState ua clk c d) evs) = outbox c"
    by (simp add: applyState_flags)
qed

theorem C1_witness:
  "truthy (d_videoPath ex_paused) \<and> d_paused ex_paused
   \<and> v_paused (videoPlayer (applyState ex_load ex_client_clk ex_client ex_paused))
   \<and> ignoreEventsUntil (applyState ex_load ex_client_clk ex_client ex_paused) = 7601
   \<and> ex_client_clk (cticks (applyState ex_load ex_client_clk ex_client ex_paused))
        < ignoreEventsUntil (applyState ex_load ex_client_clk ex_client ex_paused)
   \<and> outbox (on_pause ex_client_clk (applyState ex_load ex_client_clk ex_client ex_paused)) = []
   \<and> outbox (dispatch_all ex_client_clk (applyState ex_load ex_client_clk ex_client ex_paused)
         [EvSeeked, EvPause, EvRatechange]) = []
   \<and> outbox (on_pause ex_slow_clk (applyState ex_load ex_slow_clk ex_client ex_paused))
       = [\<lparr>a_action = ''pause'', a_position = 10, a_playbackRate = 1\<rparr>]"
proof -
  let ?c' = "applyState ex_load ex_client_clk ex_client ex_paused"
  note C1 = C1_echo_suppression[where ua = ex_load and clk = ex_client_clk and c = ex_client
      and d = ex_paused
      and x = ?c' and evs = "[EvSeeked, EvPause, EvRatechange]"]
  have h1: "truthy (d_videoPath ex_paused) \<and> d_paused ex_paused"
    by (simp add: ex_paused_def ex_playing_def)
  have h2: "applyingRemote ?c' \<or> ex_client_clk (cticks ?c') < ignoreEventsUntil ?c'"
    by (simp add: ex_applied ex_client_clk_def)
  have h3: "\<forall>j < length [EvSeeked, EvPause, EvRatechange].
      ex_client_clk (cticks ?c' + j) < ignoreEventsUntil ?c'"
    by (simp add: ex_applied ex_client_clk_def)
  have ob: "outbox ex_client = []" by (simp add: ex_client_def)
  from C1[THEN conjunct2, THEN conjunct2, THEN conjunct2, THEN conjunct1, rule_format, OF h1]
  have a: "v_paused (videoPlayer ?c')" .
  have b: "ignoreEventsUntil ?c' = 7601" by (simp add: ex_applied)
  have c: "ex_client_clk (cticks ?c') < ignoreEventsUntil ?c'"
    by (simp add: ex_applied ex_client_clk_def)
  from C1[THEN conjunct2, THEN conjunct2, THEN conjunct2, THEN conjunct2, THEN conjunct1,
      rule_format, OF h2]
  have d: "outbox (on_pause ex_client_clk ?c') = []" by (simp add: ex_applied)
  from C1[THEN conjunct2, THEN conjunct2, THEN conjunct2, THEN conjunct2, THEN conjunct2,
      rule_format, OF h3[rule_format]]
  have e: "outbox (dispatch_all ex_client_clk ?c' [EvSeeked, EvPause, EvRatechange]) = []"
    by (simp add: ob)
  have f: "outbox (on_pause ex_slow_clk (applyState ex_load ex_slow_clk ex_client ex_paused))
       = [\<lparr>a_action = ''pause'', a_position = 10, a_playbackRate = 1\<rparr>]"
    by (simp add: on_pause_def sendAction_def applyState_def applyState_video_def targetTime_def
        client_now_def ex_client_def ex_paused_def ex_playing_def ex_slow_clk_def Let_def)
  from h1 a b c d e f show ?thesis by (intro conjI) simp_all
qed

subsection \<open>Drift correction\<close>

lemma ex_video_same [simp]:
  "applyState_video ua clk ex_client ex_playing
     = ex_client\<lparr>applyingRemote := True\<rparr>"
  "applyState_video ua clk ex_client_near ex_playing
     = ex_client_near\<lparr>applyingRemote := True\<rparr>"
  "applyState_video ua clk ex_client ex_paused
     = ex_client\<lparr>applyingRemote := True\<rparr>"
  "applyState_video ua clk ex_client ex_unstamped
     = ex_client\<lparr>applyingRemote := True\<rparr>"
  by (simp_all add: applyState_video_def ex_client_def ex_client_near_def ex_playing_def
      ex_paused_def ex_unstamped_def Let_def)

text \<open>
  C9, as the claim states it, fails in three ways. A receiver that shows another video
  has its source switched before the positions are compared: with a user agent that
  resets the position on loading, a receiver at 11.9 is moved to 12.0. A \<open>serverTime\<close>
  of 0 is taken as missing and replaced by a reading of the local clock: for a message
  naming the video the receiver shows (playing, position 10, rate 1, \<open>serverTime\<close> 0) and
  a local clock that reads 2000, a receiver at 9.0 is moved to 10.0, not to 12.0. And the
  position is computed and applied only inside \<^verbatim>\<open>if (videoPath)\<close>: for a message with
  no video path a receiver at 9.0 is not moved to 12.0.
\<close>

theorem C9_counterexample:
  "d_position ex_playing = 10 \<and> \<not> d_paused ex_playing \<and> d_playbackRate ex_playing = 1
   \<and> d_videoPath ex_playing = Some ''a.mp4''
   \<and> currentVideo ex_client_other = Some ''b.mp4''
   \<and> ex_client_clk (cticks ex_client_other) = d_serverTime ex_playing + 2000
   \<and> currentTime (videoPlayer ex_client_other) = 11.9
   \<and> currentTime (videoPlayer (applyState ex_load ex_client_clk ex_client_other ex_playing)) = 12
   \<and> d_position ex_unstamped = 10 \<and> \<not> d_paused ex_unstamped \<and> d_playbackRate ex_unstamped = 1
   \<and> d_videoPath ex_unstamped = currentVideo ex_client
   \<and> d_serverTime ex_unstamped = 0
   \<and> ex_epoch_clk (cticks ex_client) = d_serverTime ex_unstamped + 2000
   \<and> currentTime (videoPlayer ex_client) = 9
   \<and> currentTime (videoPlayer (applyState ex_load ex_epoch_clk ex_client ex_unstamped)) = 10
   \<and> d_position ex_no_video = 10 \<and> \<not> d_paused ex_no_video \<and> d_playbackRate ex_no_video = 1
   \<and> ex_client_clk (cticks ex_client) = d_serverTime ex_no_video + 2000
   \<and> d_videoPath ex_no_video = None
   \<and> currentTime (videoPlayer (applyState ex_load ex_client_clk ex_client ex_no_video)) = 0"
proof -
  have a: "currentTime (videoPlayer (applyState ex_load ex_epoch_clk ex_client ex_unstamped)) = 10"
    by (simp add: applyState_def applyState_video_def targetTime_def client_now_def
        ex_client_def ex_unstamped_def ex_playing_def ex_epoch_clk_def Let_def)
  have b: "currentTime (videoPlayer (applyState ex_load ex_client_clk ex_client_other ex_playing))
      = 12"
    by (simp add: applyState_def applyState_video_def loadSubtitles_def targetTime_def
        client_now_def ex_client_other_def ex_client_def ex_playing_def ex_client_clk_def
        ex_load_def Let_def)
  have c: "currentTime (videoPlayer (applyState ex_load ex_client_clk ex_client ex_no_video)) = 0"
    by (simp add: applyState_def applyState_video_def client_now_def ex_client_def
        ex_no_video_def ex_playing_def ex_client_clk_def ex_load_def Let_def)
  show ?thesis
    by (simp add: a b c)
       (simp add: ex_unstamped_def ex_playing_def ex_no_video_def ex_client_def
          ex_client_other_def ex_epoch_clk_def ex_client_clk_def)
qed

text \<open>
  C9, amended. Let the state message name a video (a path that is not empty) and carry a
  \<open>serverTime\<close> other than 0, with position 10.0 and rate 1.0, and let the local clock,
  when \<open>applyState\<close> reads it for the target, be 2000 ms past that \<open>serverTime\<close>. If the
  message is playing, the target position is 12.0 for every receiver; a receiver whose
  media element reports 11.9 when the positions are compared is left where it is, one
  whose element reports 9.0 is moved to 12.0, and every receiver ends within 0.4 of 12.0.
  If the message is paused, the target is the position itself, and a receiver whose
  element reports 9.0 is moved to 10.0. The position compared is the receiver's own
  position, and the reading of the clock its next one, when the receiver already shows
  the video; otherwise they are what the change of source has left.
\<close>

theorem C9_drift_correction:
  assumes "truthy (d_videoPath d)" and "d_serverTime d \<noteq> 0"
    and "d_position d = 10" and "d_playbackRate d = 1"
    and "clk (cticks (applyState_video ua clk c d)) = d_serverTime d + 2000"
  shows "(\<not> d_paused d \<longrightarrow>
            targetTime d (v_playbackRate (videoPlayer (applyState_video ua clk c d)))
                (clk (cticks (applyState_video ua clk c d))) (d_serverTime d) = 12
          \<and> (currentTime (videoPlayer (applyState_video ua clk c d)) = 11.9
               \<longrightarrow> currentTime (videoPlayer (applyState ua clk c d)) = 11.9)
          \<and> (currentTime (videoPlayer (applyState_video ua clk c d)) = 9
               \<longrightarrow> currentTime (videoPlayer (applyState ua clk c d)) = 12)
          \<and> \<bar>currentTime (videoPlayer (applyState ua clk c d)) - 12\<bar> \<le> 0.4)
       \<and> (d_paused d \<longrightarrow>
            targetTime d (v_playbackRate (videoPlayer (applyState_video ua clk c d)))
                (clk (cticks (applyState_video ua clk c d))) (d_serverTime d) = d_position d
          \<and> (currentTime (videoPlayer (applyState_video ua clk c d)) = 9
               \<longrightarrow> currentTime (videoPlayer (applyState ua clk c d)) = 10))
       \<and> (currentVideo c = d_videoPath d \<longrightarrow>
            currentTime (videoPlayer (applyState_video ua clk c d)) = currentTime (videoPlayer c)
          \<and> cticks (applyState_video ua clk c d) = cticks c)"
proof -
  let ?c3 = "applyState_video ua clk c d"
  have playing: "\<not> d_paused d \<Longrightarrow> targetTime d 1 (clk (cticks ?c3)) (d_serverTime d) = 12"
    using assms(3,5) by (simp add: targetTime_def Let_def)
  have pausedt: "d_paused d \<Longrightarrow> targetTime d 1 (clk (cticks ?c3)) (d_serverTime d) = 10"
    using assms(3) by (simp add: targetTime_def Let_def)
  have ct: "currentTime (videoPlayer (applyState ua clk c d)) =
     (let target = targetTime d 1 (clk (cticks ?c3)) (d_serverTime d)
      in if \<bar>currentTime (videoPlayer ?c3) - target\<bar> > 0.4 then target
         else currentTime (videoPlayer ?c3))"
    using applyState_currentTime[OF assms(1), where ua = ua and clk = clk and c = c] assms(2,4)
    by (simp add: Let_def)
  have a: "\<not> d_paused d \<longrightarrow>
            targetTime d (v_playbackRate (videoPlayer ?c3)) (clk (cticks ?c3)) (d_serverTime d) = 12
          \<and> (currentTime (videoPlayer ?c3) = 11.9
               \<longrightarrow> currentTime (videoPlayer (applyState ua clk c d)) = 11.9)
          \<and> (currentTime (videoPlayer ?c3) = 9
               \<longrightarrow> currentTime (videoPlayer (applyState ua clk c d)) = 12)
          \<and> \<bar>currentTime (videoPlayer (applyState ua clk c d)) - 12\<bar> \<le> 0.4"
    using assms(4) by (auto simp: playing ct Let_def)
  have b: "d_paused d \<longrightarrow>
            targetTime d (v_playbackRate (videoPlayer ?c3)) (clk (cticks ?c3)) (d_serverTime d)
              = d_position d
          \<and> (currentTime (videoPlayer ?c3) = 9
               \<longrightarrow> currentTime (videoPlayer (applyState ua clk c d)) = 10)"
    using assms(3,4) by (auto simp: pausedt ct Let_def)
  have c: "currentVideo c = d_videoPath d \<longrightarrow>
            currentTime (videoPlayer ?c3) = currentTime (videoPlayer c)
          \<and> cticks ?c3 = cticks c"
    by (simp add: applyState_video_same)
  from a b c show ?thesis by (intro conjI)
qed

theorem C9_witness:
  "truthy (d_videoPath ex_playing)
   \<and> d_position ex_playing = 10 \<and> d_playbackRate ex_playing = 1 \<and> d_serverTime ex_playing \<noteq> 0
   \<and> currentVideo ex_client = d_videoPath ex_playing
   \<and> currentVideo ex_client_near = d_videoPath ex_playing
   \<and> ex_client_clk (cticks ex_client) = d_serverTime ex_playing + 2000
   \<and> ex_client_clk (cticks ex_client_near) = d_serverTime ex_playing + 2000
   \<and> \<not> d_paused ex_playing
   \<and> targetTime ex_playing
        (v_playbackRate (videoPlayer (applyState_video ex_load ex_client_clk ex_client ex_playing)))
        (ex_client_clk (cticks ex_client)) (d_serverTime ex_playing) = 12
   \<and> currentTime (videoPlayer ex_client) = 9
   \<and> currentTime (videoPlayer (applyState ex_load ex_client_clk ex_client ex_playing)) = 12
   \<and> currentTime (videoPlayer ex_client_near) = 11.9
   \<and> currentTime (videoPlayer (applyState ex_load ex_client_clk ex_client_near ex_playing)) = 11.9
   \<and> currentVideo ex_client_other = Some ''b.mp4''
   \<and> \<bar>currentTime (videoPlayer (applyState ex_load ex_client_clk ex_client_other ex_playing)) - 12\<bar>
        \<le> 0.4
   \<and> d_paused ex_paused
   \<and> currentTime (videoPlayer (applyState ex_load ex_client_clk ex_client ex_paused)) = 10"
proof -
  have h1: "truthy (d_videoPath ex_playing)" by (simp add: ex_playing_def)
  have h2: "currentVideo ex_client = d_videoPath ex_playing"
    by (simp add: ex_playing_def ex_client_def)
  have h2': "currentVideo ex_client_near = d_videoPath ex_playing"
    by (simp add: ex_playing_def ex_client_def ex_client_near_def)
  have h2'': "currentVideo ex_client_other = Some ''b.mp4''"
    by (simp add: ex_client_other_def)
  have h3: "d_position ex_playing = 10" by (simp add: ex_playing_def)
  have h4: "d_playbackRate ex_playing = 1" by (simp add: ex_playing_def)
  have h5: "d_serverTime ex_playing \<noteq> 0" by (simp add: ex_playing_def)
  have k6: "ex_client_clk (cticks ex_client) = d_serverTime ex_playing + 2000"
    by (simp add: ex_playing_def ex_client_def ex_client_clk_def)
  have k6': "ex_client_clk (cticks ex_client_near) = d_serverTime ex_playing + 2000"
    by (simp add: ex_playing_def ex_client_def ex_client_near_def ex_client_clk_def)
  have h6: "ex_client_clk (cticks (applyState_video ex_load ex_client_clk ex_client ex_playing))
      = d_serverTime ex_playing + 2000"
    by (simp add: k6)
  have h6': "ex_client_clk (cticks (applyState_video ex_load ex_client_clk ex_client_near ex_playing))
      = d_serverTime ex_playing + 2000"
    by (simp add: k6')
  have h6'': "ex_client_clk (cticks (applyState_video ex_load ex_client_clk ex_client_other ex_playing))
      = d_serverTime ex_playing + 2000"
    by (simp add: applyState_video_def loadSubtitles_def ex_client_other_def ex_client_def
        ex_playing_def ex_client_clk_def Let_def)
  have h7: "\<not> d_paused ex_playing" by (simp add: ex_playing_def)
  have p1: "truthy (d_videoPath ex_paused)" by (simp add: ex_paused_def ex_playing_def)
  have p3: "d_position ex_paused = 10" by (simp add: ex_paused_def ex_playing_def)
  have p4: "d_playbackRate ex_paused = 1" by (simp add: ex_paused_def ex_playing_def)
  have p5: "d_serverTime ex_paused \<noteq> 0" by (simp add: ex_paused_def ex_playing_def)
  have k7: "ex_client_clk (cticks ex_client) = d_serverTime ex_paused + 2000"
    by (simp add: ex_paused_def ex_playing_def ex_client_def ex_client_clk_def)
  have p6: "ex_client_clk (cticks (applyState_video ex_load ex_client_clk ex_client ex_paused))
      = d_serverTime ex_paused + 2000"
    by (simp add: k7)
  have p7: "d_paused ex_paused" by (simp add: ex_paused_def)
  have c9: "currentTime (videoPlayer ex_client) = 9" by (simp add: ex_client_def)
  have c119: "currentTime (videoPlayer ex_client_near) = 11.9"
    by (simp add: ex_client_near_def)
  have v9: "currentTime (videoPlayer (applyState_video ex_load ex_client_clk ex_client ex_playing)) = 9"
    by (simp add: c9)
  have v119: "currentTime (videoPlayer (applyState_video ex_load ex_client_clk ex_client_near ex_playing))
      = 11.9"
    by (simp add: c119)
  have w9: "currentTime (videoPlayer (applyState_video ex_load ex_client_clk ex_client ex_paused)) = 9"
    by (simp add: c9)
  note far = C9_drift_correction[where ua = ex_load and clk = ex_client_clk and c = ex_client,
      OF h1 h5 h3 h4 h6, THEN conjunct1, rule_format, OF h7]
  note near = C9_drift_correction[where ua = ex_load and clk = ex_client_clk and c = ex_client_near,
      OF h1 h5 h3 h4 h6', THEN conjunct1, rule_format, OF h7]
  note other = C9_drift_correction[where ua = ex_load and clk = ex_client_clk
      and c = ex_client_other, OF h1 h5 h3 h4 h6'', THEN conjunct1, rule_format, OF h7]
  note held = C9_drift_correction[where ua = ex_load and clk = ex_client_clk and c = ex_client,
      OF p1 p5 p3 p4 p6, THEN conjunct2, THEN conjunct1, rule_format, OF p7]
  from far have a: "targetTime ex_playing
        (v_playbackRate (videoPlayer (applyState_video ex_load ex_client_clk ex_client ex_playing)))
        (ex_client_clk (cticks ex_client)) (d_serverTime ex_playing) = 12"
    by simp
  from far[THEN conjunct2, THEN conjunct2, THEN conjunct1, rule_format, OF v9]
  have b: "currentTime (videoPlayer (applyState ex_load ex_client_clk ex_client ex_playing)) = 12" .
  from near[THEN conjunct2, THEN conjunct1, rule_format, OF v119]
  have c: "currentTime (videoPlayer (applyState ex_load ex_client_clk ex_client_near ex_playing)) = 11.9" .
  from other[THEN conjunct2, THEN conjunct2, THEN conjunct2]
  have o: "\<bar>currentTime (videoPlayer (applyState ex_load ex_client_clk ex_client_other ex_playing)) - 12\<bar>
        \<le> 0.4" .
  from held[THEN conjunct2, rule_format, OF w9]
  have d: "currentTime (videoPlayer (applyState ex_load ex_client_clk ex_client ex_paused)) = 10" .
  from h1 h3 h4 h5 h2 h2' k6 k6' h7 a c9 b c119 c h2'' o p7 d show ?thesis by (intro conjI)
qed

end
